theory Spec2Isabelle
  imports Complex_Main
begin

section \<open>Shared vocabulary\<close>

text \<open>
  The repository is a React application. Its asynchronous operations run on one
  cooperative thread; an operation of the model is the effect of one source function
  run to completion, and every external service the function awaits is an input of
  the model. An awaited promise either fulfils with a value or rejects with an
  error, whose text (\<open>e.toString()\<close>) is all the code ever reads of it.
\<close>

datatype 'a outcome = Throws string | Returns 'a

text \<open>\<open>Base64Media\<close> of \<open>src/types.ts\<close>.\<close>

record Base64Media =
  media_data :: string
  mimeType :: string

section \<open>Duplex session transport (\<open>src/services/geminiService.ts\<close>, class \<open>LiveSession\<close>)\<close>

text \<open>
  The browser's \<open>WebSocket\<close>: its \<open>readyState\<close> and the frames accepted by
  \<open>send\<close>, oldest first. The payload of a frame is kept as the value handed to
  \<open>JSON.stringify\<close>; the two envelopes of the class are the two constructors.
\<close>

datatype ready_state = CONNECTING | OPEN | CLOSING | CLOSED

record FunctionResponse =
  fr_id :: string
  fr_name :: string
  fr_response :: string

datatype frame = RealtimeInput Base64Media | ToolResponse FunctionResponse

record WebSocket =
  readyState :: ready_state
  sent :: "frame list"
  bufferedAmount :: nat

text \<open>
  \<open>WebSocket.send\<close> as the platform defines it: it throws \<open>InvalidStateError\<close> while
  the socket is connecting, transmits when it is open, and once the socket is closing
  or closed it only grows \<open>bufferedAmount\<close> and drops the data.
\<close>

definition ws_send :: "WebSocket \<Rightarrow> frame \<Rightarrow> WebSocket outcome" where
  "ws_send ws f =
     (case readyState ws of
        CONNECTING \<Rightarrow> Throws ''InvalidStateError''
      | OPEN \<Rightarrow> Returns (ws\<lparr>sent := sent ws @ [f]\<rparr>)
      | CLOSING \<Rightarrow> Returns (ws\<lparr>bufferedAmount := Suc (bufferedAmount ws)\<rparr>)
      | CLOSED \<Rightarrow> Returns (ws\<lparr>bufferedAmount := Suc (bufferedAmount ws)\<rparr>))"

text \<open>\<open>WebSocket.close()\<close>: nothing on a closing or closed socket, else the socket starts closing.\<close>

definition ws_close :: "WebSocket \<Rightarrow> WebSocket" where
  "ws_close ws =
     (case readyState ws of
        CLOSING \<Rightarrow> ws
      | CLOSED \<Rightarrow> ws
      | _ \<Rightarrow> ws\<lparr>readyState := CLOSING\<rparr>)"

text \<open>
  What a handler registered with the session captured when it was created: the
  values of the two transcript state variables in the render that built
  \<open>handleMessage\<close> (its \<open>useCallback\<close> dependency list names both).
\<close>

record closure =
  c_currentInputTranscription :: string
  c_currentOutputTranscription :: string

text \<open>
  \<open>LiveSession\<close>: the socket and the callbacks given to the constructor. The class
  never replaces \<open>callbacks\<close>, so \<open>onMessage\<close> stays the function it was built with.
\<close>

record LiveSession =
  ws :: WebSocket
  callbacks :: closure

definition sendRealtimeInput :: "LiveSession \<Rightarrow> Base64Media \<Rightarrow> LiveSession outcome" where
  "sendRealtimeInput s input =
     (if readyState (ws s) = OPEN
      then (case ws_send (ws s) (RealtimeInput input) of
              Throws e \<Rightarrow> Throws e
            | Returns w \<Rightarrow> Returns (s\<lparr>ws := w\<rparr>))
      else Returns s)"

definition sendToolResponse :: "LiveSession \<Rightarrow> FunctionResponse \<Rightarrow> LiveSession outcome" where
  "sendToolResponse s response =
     (if readyState (ws s) = OPEN
      then (case ws_send (ws s) (ToolResponse response) of
              Throws e \<Rightarrow> Throws e
            | Returns w \<Rightarrow> Returns (s\<lparr>ws := w\<rparr>))
      else Returns s)"

definition session_close :: "LiveSession \<Rightarrow> LiveSession" where
  "session_close s = s\<lparr>ws := ws_close (ws s)\<rparr>"

section \<open>Strings as the code uses them\<close>

text \<open>
  A string is a list of characters; the JavaScript methods the code calls are written
  out. \<open>str_includes s p\<close> is \<open>s.includes(p)\<close>, \<open>split s sep\<close> is \<open>s.split(sep)\<close> for a
  separator that is not empty (the only use the code makes of it), \<open>trim\<close> removes the
  white space and line terminators of ECMAScript that fit a \<open>char\<close> from both ends, and
  \<open>nth_opt xs i\<close> is \<open>xs[i]\<close>, \<open>None\<close> standing for \<open>undefined\<close>.
\<close>

fun startsWith :: "string \<Rightarrow> string \<Rightarrow> bool" where
  "startsWith s [] = True"
| "startsWith [] (p # ps) = False"
| "startsWith (c # cs) (p # ps) = (c = p \<and> startsWith cs ps)"

fun str_includes :: "string \<Rightarrow> string \<Rightarrow> bool" where
  "str_includes [] p = (p = [])"
| "str_includes (c # cs) p = (startsWith (c # cs) p \<or> str_includes cs p)"

function split_from :: "string \<Rightarrow> string \<Rightarrow> string \<Rightarrow> string list" where
  "split_from sep acc [] = [rev acc]"
| "split_from sep acc (c # cs) =
     (if sep \<noteq> [] \<and> startsWith (c # cs) sep
      then rev acc # split_from sep [] (drop (length sep) (c # cs))
      else split_from sep (c # acc) cs)"
  by pat_completeness auto
termination
  by (relation "measure (\<lambda>(sep, acc, s). length s)") auto

definition split :: "string \<Rightarrow> string \<Rightarrow> string list" where
  "split s sep = split_from sep [] s"

definition isWhiteSpace :: "char \<Rightarrow> bool" where
  "isWhiteSpace c = (c \<in> set [CHR 0x09, CHR 0x0A, CHR 0x0B, CHR 0x0C, CHR 0x0D, CHR 0x20, CHR 0xA0])"

definition trim :: "string \<Rightarrow> string" where
  "trim s = rev (dropWhile isWhiteSpace (rev (dropWhile isWhiteSpace s)))"

fun nth_opt :: "'a list \<Rightarrow> nat \<Rightarrow> 'a option" where
  "nth_opt [] i = None"
| "nth_opt (x # xs) 0 = Some x"
| "nth_opt (x # xs) (Suc i) = nth_opt xs i"

section \<open>Scene analysis loop (\<open>src/components/CameraVisualizer.tsx\<close>, \<open>runAnalysis\<close>)\<close>

text \<open>
  The result types of \<open>src/types.ts\<close>. Coordinates are JavaScript numbers; the model
  takes them as rationals, and only the coverage ratio, which no theorem below reads,
  computes with them.
\<close>

record BoundingBox =
  yMin :: rat
  xMin :: rat
  yMax :: rat
  xMax :: rat

record DetectedObject =
  obj_name :: string
  obj_description :: string
  boundingBox :: BoundingBox

record AnalysisResult =
  sceneDescription :: string
  spatialAnalysis :: string
  detectedObjects :: "DetectedObject list"
  detectedFaces :: "BoundingBox list"

text \<open>
  The calls the component makes on its props, in the order made:
  \<open>onAnalysisUpdate(result, loading, error)\<close>, \<open>speakAndLog(text)\<close> and
  \<open>onEmergencyTrigger()\<close>.
\<close>

datatype prop_call =
    AnalysisUpdate "AnalysisResult option" bool "string option"
  | SpeakAndLog string
  | EmergencyTrigger

text \<open>
  The component's state and refs. \<open>timeoutId\<close> is the delay in milliseconds of the
  timer most recently set by \<open>window.setTimeout(runAnalysis, delay)\<close>, \<open>None\<close> before the
  first; \<open>prop_calls\<close> collects the calls on the props.
\<close>

record visualizer =
  boundingBoxes :: "AnalysisResult option"
  selectedObject :: "DetectedObject option"
  isDetectionEnabled :: bool
  coverageRatio :: rat
  isAnalyzing :: bool
  emergencyTriggered :: "string option"
  timeoutId :: "nat option"
  prop_calls :: "prop_call list"

text \<open>
  What one cycle reads from outside the component: the webcam hook's \<open>isEnabled\<close>,
  \<open>navigator.onLine\<close>, the outcome of \<open>captureFrame()\<close> and of
  \<open>generateObjectDescription(...)\<close>, and whether the optional \<open>onEmergencyTrigger\<close>
  prop was given.
\<close>

record cycle_env =
  webcam_isEnabled :: bool
  onLine :: bool
  captureFrame :: "Base64Media option outcome"
  generateObjectDescription :: "AnalysisResult outcome"
  hasEmergencyTrigger :: bool

definition emergency_marker :: string where
  "emergency_marker = ''CRITICAL EMERGENCY:''"

text \<open>
  \<open>result.sceneDescription.split("CRITICAL EMERGENCY:")[1].split(".")[0].trim()\<close>;
  calling \<open>split\<close> on \<open>undefined\<close> is a \<open>TypeError\<close>.
\<close>

definition extract_emergency_type :: "string \<Rightarrow> string outcome" where
  "extract_emergency_type desc =
     (case nth_opt (split desc emergency_marker) 1 of
        None \<Rightarrow> Throws ''TypeError''
      | Some seg \<Rightarrow>
          (case nth_opt (split seg ''.'') 0 of
             None \<Rightarrow> Throws ''TypeError''
           | Some t \<Rightarrow> Returns (trim t)))"

definition box_area :: "DetectedObject \<Rightarrow> rat" where
  "box_area obj =
     (xMax (boundingBox obj) - xMin (boundingBox obj)) * (yMax (boundingBox obj) - yMin (boundingBox obj))"

definition largest_area :: "DetectedObject list \<Rightarrow> rat" where
  "largest_area objs = foldl (\<lambda>maxArea obj. if box_area obj > maxArea then box_area obj else maxArea) 0 objs"

text \<open>The emergency check of a successful cycle (the \<open>if\<close>/\<open>else\<close> after the coverage update).\<close>

definition check_emergency :: "cycle_env \<Rightarrow> AnalysisResult \<Rightarrow> visualizer \<Rightarrow> visualizer outcome" where
  "check_emergency env result v =
     (if str_includes (sceneDescription result) emergency_marker \<and> hasEmergencyTrigger env
      then (case extract_emergency_type (sceneDescription result) of
              Throws e \<Rightarrow> Throws e
            | Returns emergencyType \<Rightarrow>
                Returns
                  (if emergencyTriggered v \<noteq> Some emergencyType
                   then v\<lparr>emergencyTriggered := Some emergencyType,
                          prop_calls := prop_calls v @
                            [SpeakAndLog (''Visual system detected a critical event: '' @ emergencyType @
                                          ''. Activating emergency dashboard.''),
                             EmergencyTrigger]\<rparr>
                   else v))
      else Returns (v\<lparr>emergencyTriggered := None\<rparr>))"

text \<open>
  The body of the \<open>try\<close> block. A state update made before an exception stays made, so
  the block yields the state it reached together with the exception, if any.
\<close>

definition analysis_try :: "cycle_env \<Rightarrow> visualizer \<Rightarrow> visualizer \<times> string option" where
  "analysis_try env v =
     (case captureFrame env of
        Throws e \<Rightarrow> (v, Some e)
      | Returns None \<Rightarrow> (v\<lparr>timeoutId := Some 1000\<rparr>, None)
      | Returns (Some frame) \<Rightarrow>
          (case generateObjectDescription env of
             Throws e \<Rightarrow> (v, Some e)
           | Returns result \<Rightarrow>
               (let v1 = v\<lparr>boundingBoxes := Some result,
                           prop_calls := prop_calls v @ [AnalysisUpdate (Some result) False None]\<rparr>;
                    v2 = v1\<lparr>coverageRatio :=
                              (if detectedObjects result \<noteq> [] then largest_area (detectedObjects result) else 0)\<rparr>
                in case check_emergency env result v2 of
                     Throws e \<Rightarrow> (v2, Some e)
                   | Returns v3 \<Rightarrow> (v3\<lparr>timeoutId := Some 2000\<rparr>, None))))"

text \<open>The \<open>catch\<close> block: classification of the error text and the backoff.\<close>

definition isQuotaError :: "string \<Rightarrow> bool" where
  "isQuotaError errorMsg =
     (str_includes errorMsg ''429'' \<or> str_includes errorMsg ''quota'' \<or> str_includes errorMsg ''RESOURCE_EXHAUSTED'')"

definition isTimeout :: "string \<Rightarrow> bool" where
  "isTimeout errorMsg = str_includes errorMsg ''timed out''"

definition backoff_delay :: "string \<Rightarrow> nat" where
  "backoff_delay errorMsg = (if isQuotaError errorMsg then 60000 else if isTimeout errorMsg then 10000 else 5000)"

definition analysis_catch :: "string \<Rightarrow> visualizer \<Rightarrow> visualizer" where
  "analysis_catch errorMsg v =
     (let v1 = v\<lparr>prop_calls := prop_calls v @
                   [AnalysisUpdate None False
                      (Some (if isQuotaError errorMsg then ''Quota exceeded. Pausing 1 min.''
                             else if isTimeout errorMsg then ''Network timeout. Retrying...''
                             else ''Analysis error. Retrying...''))]\<rparr>;
          v2 = (if isQuotaError errorMsg then v1\<lparr>boundingBoxes := None\<rparr> else v1)
      in v2\<lparr>timeoutId := Some (backoff_delay errorMsg)\<rparr>)"

definition runAnalysis :: "cycle_env \<Rightarrow> visualizer \<Rightarrow> visualizer" where
  "runAnalysis env v =
     (if \<not> webcam_isEnabled env \<or> \<not> isDetectionEnabled v then v
      else if \<not> onLine env
      then v\<lparr>prop_calls := prop_calls v @ [AnalysisUpdate None False (Some ''No internet connection.'')],
             timeoutId := Some 5000\<rparr>
      else if isAnalyzing v then v
      else (case analysis_try env (v\<lparr>isAnalyzing := True\<rparr>) of
              (v', None) \<Rightarrow> v'\<lparr>isAnalyzing := False\<rparr>
            | (v', Some e) \<Rightarrow> (analysis_catch e v')\<lparr>isAnalyzing := False\<rparr>))"

text \<open>A session of the loop: one cycle after another, each with its own environment.\<close>

definition run_cycles :: "cycle_env list \<Rightarrow> visualizer \<Rightarrow> visualizer" where
  "run_cycles envs v = foldl (\<lambda>s env. runAnalysis env s) v envs"

definition emergency_triggers :: "visualizer \<Rightarrow> nat" where
  "emergency_triggers v = length (filter (\<lambda>c. c = EmergencyTrigger) (prop_calls v))"

text \<open>The component as mounted: \<open>useState\<close> and \<open>useRef\<close> initial values.\<close>

definition visualizer_init :: visualizer where
  "visualizer_init =
     \<lparr>boundingBoxes = None, selectedObject = None, isDetectionEnabled = True, coverageRatio = 0,
      isAnalyzing = False, emergencyTriggered = None, timeoutId = None, prop_calls = []\<rparr>"

text \<open>
  Inputs for the examples: a cycle whose detection returns the given scene description,
  one whose detection call fails with the given error text, and a detection result.
\<close>

definition scene_cycle :: "string \<Rightarrow> cycle_env" where
  "scene_cycle desc =
     \<lparr>webcam_isEnabled = True, onLine = True,
      captureFrame = Returns (Some \<lparr>media_data = ''AAAA'', mimeType = ''image/jpeg''\<rparr>),
      generateObjectDescription =
        Returns \<lparr>sceneDescription = desc, spatialAnalysis = [], detectedObjects = [], detectedFaces = []\<rparr>,
      hasEmergencyTrigger = True\<rparr>"




section \<open>Location provider (\<open>useGeolocation\<close>, \<open>requestLocation\<close>)\<close>

datatype geo_status = Idle | Pending | Granted | Denied | Unsupported

record Coordinates =
  latitude :: rat
  longitude :: rat

text \<open>
  A promise is pending or settled. The hook only ever calls \<open>resolve\<close>, but the model
  keeps the rejected state so that "never rejects" says something.
\<close>

datatype 'a promise = Unsettled | Fulfilled 'a | Rejected string

text \<open>
  The hook's state, its \<open>promiseRef\<close>, and the promises it has created, addressed by
  their position in \<open>promises\<close>. An \<open>async\<close> function hands each caller a promise of
  its own that settles as the promise the body returned does; \<open>returned\<close> lists, one
  entry per call and oldest first, which promise that is. \<open>platform_requests\<close> counts
  the calls of \<open>navigator.geolocation.getCurrentPosition\<close>.
\<close>

record geolocation =
  location :: "Coordinates option"
  status :: geo_status
  geo_error :: "string option"
  promiseRef :: "nat option"
  promises :: "Coordinates option promise list"
  returned :: "nat list"
  platform_requests :: nat

text \<open>
  \<open>requestLocation()\<close>; \<open>supported\<close> is the truth value of \<open>navigator.geolocation\<close>.
  The body has no \<open>await\<close>, so it runs to its \<open>return\<close> within the call.
\<close>

definition requestLocation :: "bool \<Rightarrow> geolocation \<Rightarrow> geolocation" where
  "requestLocation supported g =
     (case promiseRef g of
        Some p \<Rightarrow> g\<lparr>returned := returned g @ [p]\<rparr>
      | None \<Rightarrow>
          (let g1 = g\<lparr>status := Pending, geo_error := None\<rparr>
           in if \<not> supported
              then g1\<lparr>status := Unsupported,
                      geo_error := Some ''Geolocation is not supported by this browser.'',
                      promises := promises g1 @ [Fulfilled None],
                      returned := returned g1 @ [length (promises g1)]\<rparr>
              else g1\<lparr>promises := promises g1 @ [Unsettled],
                      platform_requests := Suc (platform_requests g1),
                      promiseRef := Some (length (promises g1)),
                      returned := returned g1 @ [length (promises g1)]\<rparr>))"

text \<open>\<open>resolve(v)\<close> of promise \<open>p\<close>: settles it if it is still pending, else nothing.\<close>

definition resolve :: "nat \<Rightarrow> 'a \<Rightarrow> 'a promise list \<Rightarrow> 'a promise list" where
  "resolve p v ps = (if p < length ps \<and> ps ! p = Unsettled then ps[p := Fulfilled v] else ps)"

text \<open>
  The platform answers the request behind promise \<open>p\<close>: the success callback with a
  position, or the error callback with a message (a timeout after 10 s is one). The
  \<open>finally\<close> handler registered by the first caller then clears \<open>promiseRef\<close>.
\<close>

definition platform_reply :: "nat \<Rightarrow> string + Coordinates \<Rightarrow> geolocation \<Rightarrow> geolocation" where
  "platform_reply p reply g =
     (case reply of
        Inr loc \<Rightarrow> g\<lparr>location := Some loc, status := Granted,
                      promises := resolve p (Some loc) (promises g), promiseRef := None\<rparr>
      | Inl message \<Rightarrow> g\<lparr>status := Denied, geo_error := Some message,
                          promises := resolve p None (promises g), promiseRef := None\<rparr>)"

text \<open>\<open>n\<close> calls of \<open>requestLocation()\<close> made one after the other with no platform answer between them.\<close>

primrec request_n :: "nat \<Rightarrow> bool \<Rightarrow> geolocation \<Rightarrow> geolocation" where
  "request_n 0 supported g = g"
| "request_n (Suc n) supported g = requestLocation supported (request_n n supported g)"

text \<open>What the \<open>k\<close>-th call of \<open>requestLocation()\<close> resolved to, if it has settled.\<close>

definition caller_result :: "geolocation \<Rightarrow> nat \<Rightarrow> Coordinates option promise option" where
  "caller_result g k =
     (case nth_opt (returned g) k of
        None \<Rightarrow> None
      | Some p \<Rightarrow> nth_opt (promises g) p)"

definition reply_value :: "string + Coordinates \<Rightarrow> Coordinates option" where
  "reply_value reply = (case reply of Inr loc \<Rightarrow> Some loc | Inl message \<Rightarrow> None)"

definition geolocation_init :: geolocation where
  "geolocation_init =
     \<lparr>location = None, status = Idle, geo_error = None, promiseRef = None,
      promises = [], returned = [], platform_requests = 0\<rparr>"

section \<open>Media capture adapter (\<open>useWebcam\<close>)\<close>

datatype facing = User | Environment

text \<open>What the hook asks of the device, in the order asked: \<open>track.stop()\<close> on track \<open>i\<close> of stream \<open>s\<close>, and \<open>getUserMedia\<close>.\<close>

datatype device_event = TrackStop nat nat | GetUserMedia facing

text \<open>
  The hook's state variables, and the \<open>MediaStream\<close> objects obtained so far: the
  state holds a reference (a position in \<open>media_streams\<close>), each stream is the list of
  its tracks, \<open>True\<close> for a track that is live. A stream is active while it has a live
  track.
\<close>

record webcam =
  stream :: "nat option"
  isEnabled :: bool
  facingMode :: facing
  hasMultipleCameras :: bool
  hasTorch :: bool
  isTorchOn :: bool
  cam_error :: "string option"
  media_streams :: "bool list list"
  device_log :: "device_event list"

text \<open>
  What the callbacks of one render have captured: \<open>enableWebcam\<close> is rebuilt when
  \<open>facingMode\<close>, \<open>isEnabled\<close> or \<open>stream\<close> change and reads the three as they were in
  its render; \<open>disableWebcam\<close> reads \<open>stream\<close>.
\<close>

record webcam_closure =
  cl_stream :: "nat option"
  cl_isEnabled :: bool
  cl_facingMode :: facing

definition render_webcam :: "webcam \<Rightarrow> webcam_closure" where
  "render_webcam w = \<lparr>cl_stream = stream w, cl_isEnabled = isEnabled w, cl_facingMode = facingMode w\<rparr>"

definition stream_active :: "bool list list \<Rightarrow> nat \<Rightarrow> bool" where
  "stream_active ms s = (s < length ms \<and> True \<in> set (ms ! s))"

text \<open>\<open>stream.getTracks().forEach(track => track.stop())\<close>.\<close>

definition stop_tracks :: "nat \<Rightarrow> webcam \<Rightarrow> webcam" where
  "stop_tracks s w =
     (if s < length (media_streams w)
      then w\<lparr>media_streams := (media_streams w)[s := map (\<lambda>t. False) (media_streams w ! s)],
             device_log := device_log w @ map (TrackStop s) [0..<length (media_streams w ! s)]\<rparr>
      else w)"

text \<open>The "clean up existing" step: \<open>if (stream) stream.getTracks().forEach(...)\<close> on the captured stream.\<close>

definition release_existing :: "webcam_closure \<Rightarrow> webcam \<Rightarrow> webcam" where
  "release_existing cl w = (case cl_stream cl of None \<Rightarrow> w | Some s \<Rightarrow> stop_tracks s w)"

text \<open>
  The guard of \<open>enableWebcam\<close>: \<open>isEnabled && stream && facingMode === mode && stream.active\<close>,
  on the captured variables; \<open>stream.active\<close> reads the stream object as it is now.
\<close>

definition already_live :: "webcam_closure \<Rightarrow> webcam \<Rightarrow> facing \<Rightarrow> bool" where
  "already_live cl w mode =
     (cl_isEnabled cl \<and> (case cl_stream cl of None \<Rightarrow> False
                         | Some s \<Rightarrow> cl_facingMode cl = mode \<and> stream_active (media_streams w) s))"

text \<open>
  \<open>enableWebcam(mode = facingMode)\<close> up to its \<open>await\<close>: the guard, the clean-up, and
  the call of \<open>getUserMedia\<close>. The result says whether a request is now pending and
  for which mode.
\<close>

definition enable_begin :: "webcam_closure \<Rightarrow> facing option \<Rightarrow> webcam \<Rightarrow> webcam \<times> facing option" where
  "enable_begin cl mode_arg w =
     (let mode = (case mode_arg of None \<Rightarrow> cl_facingMode cl | Some m \<Rightarrow> m)
      in if already_live cl w mode then (w, None)
         else
           (let w1 = release_existing cl w
            in (w1\<lparr>device_log := device_log w1 @ [GetUserMedia mode]\<rparr>, Some mode)))"

text \<open>The \<open>catch\<close> of \<open>enableWebcam\<close>, by the \<open>name\<close> of the error.\<close>

definition enable_failed :: "string \<Rightarrow> webcam \<Rightarrow> webcam" where
  "enable_failed name w =
     w\<lparr>isEnabled := False, stream := None,
       cam_error := Some
         (if name = ''NotAllowedError'' then ''Camera access denied. Please check permissions.''
          else if name = ''NotFoundError'' then ''No camera found.''
          else ''Could not access camera.'')\<rparr>"

text \<open>
  \<open>enableWebcam\<close> from the point where \<open>getUserMedia\<close> settles. The answer is a
  rejection with the error's \<open>name\<close>, or a new stream with one live video track,
  given by what \<open>track.getCapabilities()\<close> does on that track: it returns the truth
  value of \<open>capabilities.torch\<close>, or it throws (the method is missing on some
  browsers, and the call is inside the same \<open>try\<close>). The state setters before the
  probe have run when the probe throws.
\<close>

definition enable_finish :: "facing \<Rightarrow> bool outcome outcome \<Rightarrow> webcam \<Rightarrow> webcam" where
  "enable_finish mode answer w =
     (case answer of
        Throws name \<Rightarrow> enable_failed name w
      | Returns probe \<Rightarrow>
          (let w1 = w\<lparr>media_streams := media_streams w @ [[True]],
                      stream := Some (length (media_streams w)),
                      isEnabled := True, facingMode := mode, cam_error := None\<rparr>
           in case probe of
                Returns torch \<Rightarrow> w1\<lparr>hasTorch := torch, isTorchOn := False\<rparr>
              | Throws name \<Rightarrow> enable_failed name w1))"

text \<open>
  A call of \<open>enableWebcam\<close> that runs to its end before anything else happens, made
  on the callback of the render of the current state.
\<close>

definition enableWebcam :: "facing option \<Rightarrow> bool outcome outcome \<Rightarrow> webcam \<Rightarrow> webcam" where
  "enableWebcam mode_arg answer w =
     (case enable_begin (render_webcam w) mode_arg w of
        (w1, None) \<Rightarrow> w1
      | (w1, Some mode) \<Rightarrow> enable_finish mode answer w1)"

definition disableWebcam :: "webcam \<Rightarrow> webcam" where
  "disableWebcam w =
     (release_existing (render_webcam w) w)\<lparr>stream := None, isEnabled := False, isTorchOn := False, hasTorch := False\<rparr>"

definition toggleCamera :: "bool outcome outcome \<Rightarrow> webcam \<Rightarrow> webcam" where
  "toggleCamera answer w =
     enableWebcam (Some (if facingMode w = User then Environment else User)) answer w"

text \<open>Calls made on the hook one after the other, each with the device's answer to it.\<close>

datatype cam_call = Enable "facing option" "bool outcome outcome" | Disable | Toggle "bool outcome outcome"

fun cam_step :: "webcam \<Rightarrow> cam_call \<Rightarrow> webcam" where
  "cam_step w (Enable mode_arg answer) = enableWebcam mode_arg answer w"
| "cam_step w Disable = disableWebcam w"
| "cam_step w (Toggle answer) = toggleCamera answer w"

definition cam_run :: "cam_call list \<Rightarrow> webcam \<Rightarrow> webcam" where
  "cam_run calls w = foldl cam_step w calls"

text \<open>
  Two calls of \<open>enableWebcam\<close> on the callback of one render, the second made while
  the first awaits \<open>getUserMedia\<close> (no state setter has run in between, so the
  component has not rendered again); the device then answers the first and the
  second.
\<close>

definition enable_twice :: "facing option \<Rightarrow> bool outcome outcome \<Rightarrow> bool outcome outcome \<Rightarrow> webcam \<Rightarrow> webcam" where
  "enable_twice mode_arg answer1 answer2 w =
     (let cl = render_webcam w;
          (w1, pending1) = enable_begin cl mode_arg w;
          (w2, pending2) = enable_begin cl mode_arg w1;
          w3 = (case pending1 of None \<Rightarrow> w2 | Some mode \<Rightarrow> enable_finish mode answer1 w2)
      in case pending2 of None \<Rightarrow> w3 | Some mode \<Rightarrow> enable_finish mode answer2 w3)"

definition active_streams :: "webcam \<Rightarrow> nat list" where
  "active_streams w = filter (stream_active (media_streams w)) [0..<length (media_streams w)]"

text \<open>Every active stream is the one the state refers to.\<close>

definition tracked :: "webcam \<Rightarrow> bool" where
  "tracked w = (\<forall>i < length (media_streams w). stream_active (media_streams w) i \<longrightarrow> stream w = Some i)"

text \<open>The answer of the device is not a stream whose capability probe throws.\<close>

definition probe_returns :: "bool outcome outcome \<Rightarrow> bool" where
  "probe_returns answer = (case answer of Returns (Throws name) \<Rightarrow> False | _ \<Rightarrow> True)"

fun call_probe_returns :: "cam_call \<Rightarrow> bool" where
  "call_probe_returns (Enable mode_arg answer) = probe_returns answer"
| "call_probe_returns Disable = True"
| "call_probe_returns (Toggle answer) = probe_returns answer"

definition webcam_init :: webcam where
  "webcam_init =
     \<lparr>stream = None, isEnabled = False, facingMode = User, hasMultipleCameras = False,
      hasTorch = False, isTorchOn = False, cam_error = None, media_streams = [], device_log = []\<rparr>"

section \<open>Live dialogue orchestrator (\<open>useGeminiLive\<close>)\<close>

subsection \<open>Data\<close>

text \<open>
  \<open>ToolCall\<close>, \<open>GroundingSource\<close> and \<open>ChatMessage\<close> of \<open>src/types.ts\<close>. The arguments
  of a call are the string-valued properties the executors read; the wall-clock
  \<open>timestamp\<close> that \<open>addMessage\<close> stamps on a message is left out.
\<close>

record ToolCall =
  tc_name :: string
  tc_args :: "(string \<times> string) list"
  tc_id :: string

record GroundingSource =
  gs_uri :: string
  gs_title :: string

datatype message_type = User_message | Ai_message | Tool_call_message

record ChatMessage =
  msg_type :: message_type
  msg_text :: string
  msg_toolCall :: "ToolCall option"
  msg_groundingSources :: "GroundingSource list option"

text \<open>
  Audio objects. Times and durations are seconds of the playback clock, JavaScript
  numbers in the source; the model takes them as rationals and only compares and adds
  them. A source node is named by the number it was created as.
\<close>

record AudioContext =
  currentTime :: rat
  ctx_closed :: bool

record AudioNode =
  is_connected :: bool

text \<open>
  What the hook does to the outside, in the order done: \<open>source.start(when)\<close> and
  \<open>source.stop()\<close> on a buffer source, the \<open>onEmergencyTrigger()\<close> callback, and
  \<open>window.open\<close> of a URL base with the query that \<open>encodeURIComponent\<close> is applied to.
\<close>

datatype effect =
    SourceStart nat rat
  | SourceStop nat
  | EmergencyTriggered
  | WindowOpen string string

text \<open>
  The hook's state variables and refs. \<open>liveSessionRef\<close> refers to a \<open>LiveSession\<close>
  object by its position in \<open>sessions\<close>, the objects created so far; the object
  outlives the reference. \<open>playingSources\<close> is the \<open>Set\<close> of the source, in insertion
  order.
\<close>

record assistant =
  isListening :: bool
  isConnecting :: bool
  isAssistantActive :: bool
  currentInputTranscription :: string
  currentOutputTranscription :: string
  messages :: "ChatMessage list"
  liveSessionRef :: "nat option"
  sessions :: "LiveSession list"
  audioContextRef :: "AudioContext option"
  outputContextRef :: "AudioContext option"
  inputSourceRef :: "AudioNode option"
  processorRef :: "AudioNode option"
  outputNodeRef :: "AudioNode option"
  playingSources :: "nat list"
  nextStartTime :: rat
  hasAIBeenInterrupted :: bool
  sources_created :: nat
  effects :: "effect list"

text \<open>
  The props of the hook and the services it awaits, as functions of what the code
  passes them: the speech backend, the decoding of a base64 payload to an audio
  buffer (its duration, or the exception of \<open>atob\<close>, \<open>Int16Array\<close> or \<open>createBuffer\<close>),
  the truth value of \<open>process.env.API_KEY\<close>, the \<open>locationContext\<close> prop (with the value
  its \<open>requestLocation()\<close> resolves to; it never rejects), the grounded content request
  (text and the \<open>maps\<close> uri and title of each grounding chunk), \<open>getFrame()\<close> and the
  scene-description backend. The last field is not a service: \<open>processToolCall\<close>
  awaits its executor, and \<open>meanwhile\<close> is what the rest of the page (a click on Stop,
  a socket event, the microphone processor sending a chunk) has done to the state by
  the time the await returns.
\<close>

record services =
  generateSpeech :: "string \<Rightarrow> string outcome"
  decodeAudioData :: "string \<Rightarrow> rat outcome"
  apiKey :: bool
  ctx_location :: "Coordinates option"
  ctx_status :: geo_status
  ctx_requestLocation :: "Coordinates option"
  generateContent :: "string option \<Rightarrow> Coordinates \<Rightarrow> (string \<times> (string option \<times> string option) option list) outcome"
  getFrame :: "Base64Media option outcome"
  analyzeSceneForNavigation :: "Base64Media \<Rightarrow> Coordinates option \<Rightarrow> string outcome"
  meanwhile :: "assistant \<Rightarrow> assistant"

text \<open>
  An inbound envelope, by the parts \<open>handleMessage\<close> reads: the text of
  \<open>serverContent.inputTranscription\<close> and of \<open>serverContent.outputTranscription\<close> when
  present, the \<open>interrupted\<close> and \<open>turnComplete\<close> flags, the inline audio payload of the
  first part of the model turn when present and not empty, and the function calls of
  \<open>toolCall\<close>.
\<close>

record FunctionCall =
  fc_name :: "string option"
  fc_id :: "string option"
  fc_args :: "(string \<times> string) list option"

record LiveServerMessage =
  inputTranscription :: "string option"
  outputTranscription :: "string option"
  interrupted :: bool
  turnComplete :: bool
  audioData :: "string option"
  toolCall :: "FunctionCall list option"

subsection \<open>JavaScript values\<close>

text \<open>\<open>a || b\<close> on optional strings (\<open>undefined\<close> and the empty string are falsy), and the text a template literal gives.\<close>

definition js_or :: "string option \<Rightarrow> string option \<Rightarrow> string option" where
  "js_or a b = (case a of None \<Rightarrow> b | Some s \<Rightarrow> if s = [] then b else Some s)"

definition js_string :: "string option \<Rightarrow> string" where
  "js_string a = (case a of None \<Rightarrow> ''undefined'' | Some s \<Rightarrow> s)"

definition truthy :: "string option \<Rightarrow> bool" where
  "truthy a = (case a of None \<Rightarrow> False | Some s \<Rightarrow> s \<noteq> [])"

subsection \<open>Helpers: \<open>addMessage\<close>, \<open>playAudio\<close>, \<open>speakAndLog\<close>\<close>

definition ai_message :: "string \<Rightarrow> ChatMessage" where
  "ai_message t = \<lparr>msg_type = Ai_message, msg_text = t, msg_toolCall = None, msg_groundingSources = None\<rparr>"

definition user_message :: "string \<Rightarrow> ChatMessage" where
  "user_message t = \<lparr>msg_type = User_message, msg_text = t, msg_toolCall = None, msg_groundingSources = None\<rparr>"

definition addMessage :: "ChatMessage \<Rightarrow> assistant \<Rightarrow> assistant" where
  "addMessage m st = st\<lparr>messages := messages st @ [m]\<rparr>"

text \<open>\<open>playingSourcesRef.current.forEach(s => s.stop()); playingSourcesRef.current.clear()\<close>.\<close>

definition stop_all :: "assistant \<Rightarrow> assistant" where
  "stop_all st = st\<lparr>effects := effects st @ map SourceStop (playingSources st), playingSources := []\<rparr>"

text \<open>
  The tail shared by \<open>playAudio\<close> and the streaming branch of \<open>handleMessage\<close>: a new
  buffer source is started at the scheduling clock, the clock advances by the buffer's
  duration, and the source joins the playing set.
\<close>

definition start_source :: "rat \<Rightarrow> assistant \<Rightarrow> assistant" where
  "start_source duration st =
     st\<lparr>effects := effects st @ [SourceStart (sources_created st) (nextStartTime st)],
        nextStartTime := nextStartTime st + duration,
        playingSources := playingSources st @ [sources_created st],
        sources_created := Suc (sources_created st)\<rparr>"

text \<open>The \<open>ended\<close> listener of a source: \<open>playingSourcesRef.current.delete(source)\<close>.\<close>

definition source_ended :: "nat \<Rightarrow> assistant \<Rightarrow> assistant" where
  "source_ended s st = st\<lparr>playingSources := filter (\<lambda>x. x \<noteq> s) (playingSources st)\<rparr>"

text \<open>
  \<open>playAudio(base64Audio)\<close>. The result pairs the state reached with the exception the
  call ends in, if any; the clock is read where the source reads it, before decoding.
\<close>

definition playAudio :: "services \<Rightarrow> string \<Rightarrow> assistant \<Rightarrow> assistant \<times> string option" where
  "playAudio env base64Audio st =
     (case outputContextRef st of
        None \<Rightarrow> (st, None)
      | Some ctx \<Rightarrow>
          (case outputNodeRef st of
             None \<Rightarrow> (st, None)
           | Some node \<Rightarrow>
               (let st1 = (stop_all st)\<lparr>nextStartTime := currentTime ctx\<rparr>
                in case decodeAudioData env base64Audio of
                     Throws e \<Rightarrow> (st1, Some e)
                   | Returns duration \<Rightarrow> (start_source duration st1, None))))"

text \<open>
  \<open>speakAndLog(text, isError = false, canSpeakIfAIResponding = true)\<close>. \<open>isError\<close> only
  adds a console line; a failure of the speech backend or of playback is caught and
  logged to the console.
\<close>

definition speakAndLog :: "services \<Rightarrow> string \<Rightarrow> bool \<Rightarrow> bool \<Rightarrow> assistant \<Rightarrow> assistant" where
  "speakAndLog env text isError canSpeakIfAIResponding st =
     (if \<not> canSpeakIfAIResponding \<and> (hasAIBeenInterrupted st \<or> playingSources st \<noteq> [])
      then addMessage (ai_message text) st
      else
        (let st1 = addMessage (ai_message text) st
         in case generateSpeech env text of
              Throws e \<Rightarrow> st1
            | Returns audio \<Rightarrow> fst (playAudio env audio st1)))"

subsection \<open>Tool executors and \<open>processToolCall\<close>\<close>

text \<open>An executor yields the state it reached and either its \<open>result\<close> text or the exception it ended in.\<close>

definition executeWebSearch :: "services \<Rightarrow> string option \<Rightarrow> assistant \<Rightarrow> assistant \<times> string outcome" where
  "executeWebSearch env query st =
     (let st1 = st\<lparr>effects := effects st @ [WindowOpen ''https://www.google.com/search?q='' (js_string query)]\<rparr>
      in (speakAndLog env (''Searching for '' @ js_string query @ ''.'') False True st1,
          Returns ''Opened search.''))"

definition executeShopping :: "services \<Rightarrow> string option \<Rightarrow> assistant \<Rightarrow> assistant \<times> string outcome" where
  "executeShopping env item st =
     (let st1 = st\<lparr>effects := effects st @ [WindowOpen ''https://www.amazon.com/s?k='' (js_string item)]\<rparr>
      in (speakAndLog env (''Shopping for '' @ js_string item @ ''.'') False True st1,
          Returns ''Opened shopping.''))"

definition grounding_sources :: "(string option \<times> string option) option list \<Rightarrow> GroundingSource list" where
  "grounding_sources chunks =
     concat (map (\<lambda>c. case c of
                         Some (Some u, Some t) \<Rightarrow> (if u \<noteq> [] \<and> t \<noteq> [] then [\<lparr>gs_uri = u, gs_title = t\<rparr>] else [])
                       | _ \<Rightarrow> []) chunks)"

definition nearby_failed :: "services \<Rightarrow> assistant \<Rightarrow> assistant \<times> string outcome" where
  "nearby_failed env st =
     (speakAndLog env ''Failed to search nearby places.'' True True st,
      Returns ''Failed to search nearby places.'')"

definition executeNearby :: "services \<Rightarrow> string option \<Rightarrow> assistant \<Rightarrow> assistant \<times> string outcome" where
  "executeNearby env query st =
     (if \<not> apiKey env then (st, Returns ''API Key missing.'')
      else
        (let ask = (ctx_status env = Idle \<or> ctx_status env = Pending \<or> ctx_location env = None);
             st1 = (if ask then speakAndLog env ''I need your location. Please check your browser prompts.'' False True st
                    else st);
             loc = (if ask then ctx_requestLocation env else ctx_location env)
         in case loc of
              None \<Rightarrow>
                (speakAndLog env ''I couldn't get your location. Nearby search failed.'' True True st1,
                 Returns ''I couldn't get your location. Nearby search failed.'')
            | Some l \<Rightarrow>
                (case generateContent env query l of
                   Throws e \<Rightarrow> nearby_failed env st1
                 | Returns (text, chunks) \<Rightarrow>
                     (let st2 = addMessage
                                  \<lparr>msg_type = Ai_message, msg_text = text, msg_toolCall = None,
                                   msg_groundingSources = Some (grounding_sources chunks)\<rparr> st1
                      in case generateSpeech env text of
                           Throws e \<Rightarrow> nearby_failed env st2
                         | Returns audio \<Rightarrow>
                             (case playAudio env audio st2 of
                                (st3, Some e) \<Rightarrow> nearby_failed env st3
                              | (st3, None) \<Rightarrow> (st3, Returns text))))))"

definition executeEmergency :: "services \<Rightarrow> assistant \<Rightarrow> assistant \<times> string outcome" where
  "executeEmergency env st =
     (let st1 = st\<lparr>effects := effects st @ [EmergencyTriggered]\<rparr>
      in (speakAndLog env ''Activating Emergency Dashboard.'' False False st1,
          Returns ''Emergency dashboard activated.''))"

definition executeDescribe :: "services \<Rightarrow> assistant \<Rightarrow> assistant \<times> string outcome" where
  "executeDescribe env st =
     (case getFrame env of
        Throws e \<Rightarrow> (st, Throws e)
      | Returns None \<Rightarrow> (st, Returns ''Unable to capture image. Please ensure the camera is enabled.'')
      | Returns (Some frame) \<Rightarrow>
          (let st1 = speakAndLog env ''Analyzing your surroundings...'' False False st
           in (st1, analyzeSceneForNavigation env frame (ctx_location env))))"

text \<open>The \<open>if\<close>/\<open>else if\<close> chain inside the \<open>try\<close> of \<open>processToolCall\<close>.\<close>

definition run_tool :: "services \<Rightarrow> ToolCall \<Rightarrow> assistant \<Rightarrow> assistant \<times> string outcome" where
  "run_tool env call st =
     (if tc_name call = ''webSearch'' \<or> tc_name call = ''navigateWeb''
      then executeWebSearch env (js_or (map_of (tc_args call) ''query'') (map_of (tc_args call) ''destination'')) st
      else if tc_name call = ''onlineShoppingSearch''
      then executeShopping env (map_of (tc_args call) ''item'') st
      else if tc_name call = ''findNearbyPlaces''
      then executeNearby env (map_of (tc_args call) ''query'') st
      else if tc_name call = ''callEmergencyServices''
      then executeEmergency env st
      else if tc_name call = ''describeEnvironment''
      then executeDescribe env st
      else (st, Returns (''Unknown tool '' @ tc_name call)))"

text \<open>The \<open>catch\<close> of \<open>processToolCall\<close>: an executor that threw is answered with a generic failure result.\<close>

definition tool_result :: "string outcome \<Rightarrow> string" where
  "tool_result r = (case r of Throws e \<Rightarrow> ''Tool execution failed.'' | Returns res \<Rightarrow> res)"

text \<open>
  The end of \<open>processToolCall\<close>: the send guarded by \<open>if (liveSessionRef.current)\<close>. An
  exception of the send itself would leave the function.
\<close>

definition send_response :: "ToolCall \<Rightarrow> string \<Rightarrow> assistant \<Rightarrow> assistant \<times> string option" where
  "send_response call response st =
     (case liveSessionRef st of
        None \<Rightarrow> (st, None)
      | Some sid \<Rightarrow>
          (if sid < length (sessions st)
           then (case sendToolResponse (sessions st ! sid)
                        \<lparr>fr_id = tc_id call, fr_name = tc_name call, fr_response = response\<rparr> of
                   Throws e \<Rightarrow> (st, Some e)
                 | Returns s \<Rightarrow> (st\<lparr>sessions := (sessions st)[sid := s]\<rparr>, None))
           else (st, None)))"

definition tool_call_message :: "ToolCall \<Rightarrow> ChatMessage" where
  "tool_call_message call =
     \<lparr>msg_type = Tool_call_message, msg_text = ''Using '' @ tc_name call,
      msg_toolCall = Some call, msg_groundingSources = None\<rparr>"

text \<open>The branches of the chain that \<open>await\<close>: every one but the last, which answers an unknown name at once.\<close>

definition awaits_executor :: "ToolCall \<Rightarrow> bool" where
  "awaits_executor call =
     (tc_name call \<in> set [''webSearch'', ''navigateWeb'', ''onlineShoppingSearch'', ''findNearbyPlaces'',
                          ''callEmergencyServices'', ''describeEnvironment''])"

text \<open>
  \<open>processToolCall(call)\<close>: the log entry, the executor under \<open>try\<close>/\<open>catch\<close>, and the
  guarded send. The send reads \<open>liveSessionRef.current\<close> after the executor has been
  awaited, on the state as the page has left it meanwhile. The executors neither read
  nor write the session handle or the sockets, so for the send it makes no difference
  at which of the executor's own awaits the page acted; the model lets it act where
  the executor returns.
\<close>

definition processToolCall :: "services \<Rightarrow> ToolCall \<Rightarrow> assistant \<Rightarrow> assistant \<times> string option" where
  "processToolCall env call st =
     (let st0 = addMessage (tool_call_message call) st;
          (st1, r) = run_tool env call st0;
          st2 = (if awaits_executor call then meanwhile env st1 else st1)
      in send_response call (tool_result r) st2)"

subsection \<open>\<open>handleMessage\<close>\<close>

definition apply_transcriptions :: "LiveServerMessage \<Rightarrow> assistant \<Rightarrow> assistant" where
  "apply_transcriptions msg st =
     (let st1 = (case inputTranscription msg of
                   None \<Rightarrow> st
                 | Some t \<Rightarrow> st\<lparr>currentInputTranscription := currentInputTranscription st @ t\<rparr>)
      in case outputTranscription msg of
           None \<Rightarrow> st1
         | Some t \<Rightarrow> st1\<lparr>currentOutputTranscription := currentOutputTranscription st1 @ t\<rparr>)"

text \<open>
  The interruption and turn-complete blocks. The state setters with an updater
  function (\<open>prev => ...\<close>) act on the state; \<open>currentInputTranscription\<close> and
  \<open>currentOutputTranscription\<close> read in the conditions and in the logged text are the
  variables of the closure.
\<close>

definition handle_interrupted :: "closure \<Rightarrow> assistant \<Rightarrow> assistant" where
  "handle_interrupted cl st =
     (let st1 = (stop_all st)\<lparr>nextStartTime := 0, hasAIBeenInterrupted := True\<rparr>;
          st2 = (if c_currentOutputTranscription cl \<noteq> []
                 then addMessage (ai_message (c_currentOutputTranscription cl @ '' (Interrupted)'')) st1
                 else st1)
      in st2\<lparr>currentOutputTranscription := []\<rparr>)"

definition handle_turnComplete :: "closure \<Rightarrow> assistant \<Rightarrow> assistant" where
  "handle_turnComplete cl st =
     (let st1 = (if c_currentInputTranscription cl \<noteq> []
                 then addMessage (user_message (c_currentInputTranscription cl)) st else st);
          st2 = (if c_currentOutputTranscription cl \<noteq> []
                 then addMessage (ai_message (c_currentOutputTranscription cl)) st1 else st1)
      in st2\<lparr>currentInputTranscription := [], currentOutputTranscription := [],
             hasAIBeenInterrupted := False\<rparr>)"

text \<open>
  The streaming branch: \<open>now\<close> is read after decoding, the clock becomes
  \<open>Math.max(nextStartTime, now)\<close>, and the source starts there. \<open>source.connect\<close> of a
  missing output node is a \<open>TypeError\<close>.
\<close>

definition schedule_audio :: "services \<Rightarrow> string \<Rightarrow> assistant \<Rightarrow> assistant \<times> string option" where
  "schedule_audio env audio st =
     (case outputContextRef st of
        None \<Rightarrow> (st, None)
      | Some ctx \<Rightarrow>
          (case decodeAudioData env audio of
             Throws e \<Rightarrow> (st, Some e)
           | Returns duration \<Rightarrow>
               (case outputNodeRef st of
                  None \<Rightarrow> (st, Some ''TypeError'')
                | Some node \<Rightarrow>
                    (let now = currentTime ctx;
                         st1 = st\<lparr>nextStartTime := max (nextStartTime st) now\<rparr>
                     in (start_source duration st1, None)))))"

text \<open>The \<open>ToolCall\<close> the loop builds from a function call: \<open>fc.name\<close>, \<open>fc.id || 'unknown'\<close>, \<open>fc.args || {}\<close>.\<close>

definition tool_call_of :: "FunctionCall \<Rightarrow> ToolCall" where
  "tool_call_of fc =
     \<lparr>tc_name = js_string (fc_name fc),
      tc_args = (case fc_args fc of None \<Rightarrow> [] | Some a \<Rightarrow> a),
      tc_id = js_string (js_or (fc_id fc) (Some ''unknown''))\<rparr>"

text \<open>The \<open>for\<close> loop over \<open>msg.toolCall.functionCalls\<close>; a call without a name is skipped.\<close>

fun dispatch_tools :: "services \<Rightarrow> FunctionCall list \<Rightarrow> assistant \<Rightarrow> assistant \<times> string option" where
  "dispatch_tools env [] st = (st, None)"
| "dispatch_tools env (fc # fcs) st =
     (if truthy (fc_name fc)
      then (case processToolCall env (tool_call_of fc) st of
              (st1, Some e) \<Rightarrow> (st1, Some e)
            | (st1, None) \<Rightarrow> dispatch_tools env fcs st1)
      else dispatch_tools env fcs st)"

definition handleMessage :: "closure \<Rightarrow> services \<Rightarrow> LiveServerMessage \<Rightarrow> assistant \<Rightarrow> assistant \<times> string option" where
  "handleMessage cl env msg st =
     (let st1 = apply_transcriptions msg st;
          st2 = (if interrupted msg then handle_interrupted cl st1 else st1);
          st3 = (if turnComplete msg then handle_turnComplete cl st2 else st2)
      in case (case audioData msg of None \<Rightarrow> (st3, None) | Some audio \<Rightarrow> schedule_audio env audio st3) of
           (st4, Some e) \<Rightarrow> (st4, Some e)
         | (st4, None) \<Rightarrow>
             (case toolCall msg of
                None \<Rightarrow> (st4, None)
              | Some fcs \<Rightarrow> dispatch_tools env fcs st4))"

subsection \<open>Session start, delivery, stop\<close>

text \<open>The closure created by the render of a state: what \<open>handleMessage\<close> built in that render has captured.\<close>

definition render_closure :: "assistant \<Rightarrow> closure" where
  "render_closure st =
     \<lparr>c_currentInputTranscription = currentInputTranscription st,
      c_currentOutputTranscription = currentOutputTranscription st\<rparr>"

text \<open>The \<open>catch\<close> of \<open>startSession\<close>.\<close>

definition start_failed :: "assistant \<Rightarrow> assistant" where
  "start_failed st = addMessage (ai_message ''Connection failed. Check permissions.'') (st\<lparr>isConnecting := False\<rparr>)"

text \<open>
  \<open>startSession()\<close>, invoked as the callback of the render of the current state, so that
  the \<open>handleMessage\<close> it hands to \<open>connectLiveSession\<close> is that render's. It has two
  awaits. \<open>start_setup\<close> is the function up to the second: the connecting flag, the two
  audio contexts and the gain node, \<open>getUserMedia({audio: true})\<close> (its outcome is the
  argument), the capture source and processor, and \<open>connectLiveSession\<close>, which
  creates the socket and the \<open>LiveSession\<close> with its callbacks and returns a promise.
  The result says which session object the function now waits for, if any.
\<close>

definition start_setup :: "unit outcome \<Rightarrow> assistant \<Rightarrow> assistant \<times> nat option" where
  "start_setup microphone st =
     (let st1 = st\<lparr>isConnecting := True\<rparr>;
          st2 = st1\<lparr>audioContextRef := Some \<lparr>currentTime = 0, ctx_closed = False\<rparr>,
                    outputContextRef := Some \<lparr>currentTime = 0, ctx_closed = False\<rparr>,
                    outputNodeRef := Some \<lparr>is_connected = True\<rparr>\<rparr>
      in case microphone of
           Throws e \<Rightarrow> (start_failed st2, None)
         | Returns u \<Rightarrow>
             (st2\<lparr>inputSourceRef := Some \<lparr>is_connected = False\<rparr>,
                  processorRef := Some \<lparr>is_connected = False\<rparr>,
                  sessions := sessions st2 @
                    [\<lparr>ws = \<lparr>readyState = CONNECTING, sent = [], bufferedAmount = 0\<rparr>,
                      callbacks = render_closure st\<rparr>]\<rparr>,
              Some (length (sessions st2))))"

text \<open>
  The socket of the awaited session opens: \<open>onOpen\<close> sets the flags, the promise
  resolves, and \<open>startSession\<close> stores the handle and connects the capture nodes.
\<close>

definition start_opened :: "nat \<Rightarrow> assistant \<Rightarrow> assistant" where
  "start_opened sid st =
     st\<lparr>sessions := (sessions st)[sid := (sessions st ! sid)\<lparr>ws := (ws (sessions st ! sid))\<lparr>readyState := OPEN\<rparr>\<rparr>],
        isConnecting := False, isListening := True, isAssistantActive := True,
        liveSessionRef := Some sid,
        inputSourceRef := Some \<lparr>is_connected = True\<rparr>,
        processorRef := Some \<lparr>is_connected = True\<rparr>\<rparr>"

text \<open>
  The socket of the awaited session fails to connect: \<open>onError\<close> sets the flags, the
  promise rejects, and the \<open>catch\<close> of \<open>startSession\<close> runs.
\<close>

definition start_refused :: "nat \<Rightarrow> assistant \<Rightarrow> assistant" where
  "start_refused sid st =
     start_failed
       (st\<lparr>sessions := (sessions st)[sid := (sessions st ! sid)\<lparr>ws := (ws (sessions st ! sid))\<lparr>readyState := CLOSED\<rparr>\<rparr>],
           isConnecting := False, isListening := False\<rparr>)"

text \<open>A start that nothing interrupts, given the outcomes of the microphone request and of the connection attempt.\<close>

definition startSession :: "unit outcome \<Rightarrow> unit outcome \<Rightarrow> assistant \<Rightarrow> assistant" where
  "startSession microphone connection st =
     (case start_setup microphone st of
        (st1, None) \<Rightarrow> st1
      | (st1, Some sid) \<Rightarrow>
          (case connection of
             Throws e \<Rightarrow> start_refused sid st1
           | Returns u \<Rightarrow> start_opened sid st1))"

text \<open>
  The socket of session \<open>sid\<close> receives an envelope. A socket dispatches \<open>message\<close>
  events only while it is open; \<open>ws.onmessage\<close> then calls the \<open>onMessage\<close> the
  session was constructed with, and catches what it throws.
\<close>

definition deliver :: "services \<Rightarrow> nat \<Rightarrow> LiveServerMessage \<Rightarrow> assistant \<Rightarrow> assistant" where
  "deliver env sid msg st =
     (if sid < length (sessions st) \<and> readyState (ws (sessions st ! sid)) = OPEN
      then fst (handleMessage (callbacks (sessions st ! sid)) env msg st)
      else st)"

definition deliver_all :: "services \<Rightarrow> nat \<Rightarrow> LiveServerMessage list \<Rightarrow> assistant \<Rightarrow> assistant" where
  "deliver_all env sid msgs st = foldl (\<lambda>s msg. deliver env sid msg s) st msgs"

text \<open>
  The platform calls of \<open>stopSession\<close>. \<open>AudioNode.disconnect()\<close> without an argument
  removes the node's outgoing connections and does not throw. \<open>AudioContext.close()\<close>
  does not throw either; it returns a promise, rejected with \<open>InvalidStateError\<close> when
  the context is closed already.
\<close>

definition node_disconnect :: "AudioNode \<Rightarrow> AudioNode outcome" where
  "node_disconnect n = Returns (n\<lparr>is_connected := False\<rparr>)"

definition context_close :: "AudioContext \<Rightarrow> (AudioContext \<times> unit promise) outcome" where
  "context_close c =
     Returns (c\<lparr>ctx_closed := True\<rparr>,
              if ctx_closed c then Rejected ''InvalidStateError'' else Fulfilled ())"

text \<open>\<open>if (ref.current) ref.current.disconnect()\<close> and \<open>if (ref.current) ref.current.close()\<close>.\<close>

definition disconnect_ref :: "AudioNode option \<Rightarrow> AudioNode option outcome" where
  "disconnect_ref r =
     (case r of
        None \<Rightarrow> Returns None
      | Some n \<Rightarrow> (case node_disconnect n of Throws e \<Rightarrow> Throws e | Returns n' \<Rightarrow> Returns (Some n')))"

definition close_ref :: "AudioContext option \<Rightarrow> (AudioContext option \<times> unit promise list) outcome" where
  "close_ref r =
     (case r of
        None \<Rightarrow> Returns (None, [])
      | Some c \<Rightarrow> (case context_close c of Throws e \<Rightarrow> Throws e | Returns (c', p) \<Rightarrow> Returns (Some c', [p])))"

text \<open>\<open>if (liveSessionRef.current) liveSessionRef.current.close()\<close>; \<open>WebSocket.close()\<close> without arguments does not throw.\<close>

definition close_live_session :: "assistant \<Rightarrow> assistant" where
  "close_live_session st =
     (case liveSessionRef st of
        None \<Rightarrow> st
      | Some sid \<Rightarrow>
          (if sid < length (sessions st)
           then st\<lparr>sessions := (sessions st)[sid := session_close (sessions st ! sid)]\<rparr>
           else st))"

text \<open>
  \<open>stopSession()\<close>. The result is the state reached, the promises the two \<open>close()\<close>
  calls returned, which the function neither awaits nor keeps, and the exception the
  function ended in, if any.
\<close>

definition stopSession :: "assistant \<Rightarrow> assistant \<times> unit promise list \<times> string option" where
  "stopSession st =
     (let st1 = close_live_session (st\<lparr>isListening := False, isAssistantActive := False\<rparr>)
      in case disconnect_ref (inputSourceRef st1) of
           Throws e \<Rightarrow> (st1, [], Some e)
         | Returns n1 \<Rightarrow>
             (let st2 = st1\<lparr>inputSourceRef := n1\<rparr>
              in case disconnect_ref (processorRef st2) of
                   Throws e \<Rightarrow> (st2, [], Some e)
                 | Returns n2 \<Rightarrow>
                     (let st3 = st2\<lparr>processorRef := n2\<rparr>
                      in case close_ref (audioContextRef st3) of
                           Throws e \<Rightarrow> (st3, [], Some e)
                         | Returns (c1, p1) \<Rightarrow>
                             (let st4 = st3\<lparr>audioContextRef := c1\<rparr>
                              in case close_ref (outputContextRef st4) of
                                   Throws e \<Rightarrow> (st4, p1, Some e)
                                 | Returns (c2, p2) \<Rightarrow>
                                     (st4\<lparr>outputContextRef := c2, liveSessionRef := None\<rparr>,
                                      p1 @ p2, None)))))"

text \<open>The state a call of \<open>stopSession()\<close> leaves.\<close>

definition stopped :: "assistant \<Rightarrow> assistant" where
  "stopped st = fst (stopSession st)"


text \<open>The hook as mounted.\<close>

definition assistant_init :: assistant where
  "assistant_init =
     \<lparr>isListening = False, isConnecting = False, isAssistantActive = False,
      currentInputTranscription = [], currentOutputTranscription = [], messages = [],
      liveSessionRef = None, sessions = [], audioContextRef = None, outputContextRef = None,
      inputSourceRef = None, processorRef = None, outputNodeRef = None, playingSources = [],
      nextStartTime = 0, hasAIBeenInterrupted = False, sources_created = 0, effects = []\<rparr>"

subsection \<open>Predicates and inputs for the statements about the orchestrator\<close>

text \<open>The three state flags at rest.\<close>

definition idle :: "assistant \<Rightarrow> bool" where
  "idle st = (\<not> isListening st \<and> \<not> isConnecting st \<and> \<not> isAssistantActive st)"

definition node_released :: "AudioNode option \<Rightarrow> bool" where
  "node_released r = (case r of None \<Rightarrow> True | Some n \<Rightarrow> \<not> is_connected n)"

definition context_released :: "AudioContext option \<Rightarrow> bool" where
  "context_released r = (case r of None \<Rightarrow> True | Some c \<Rightarrow> ctx_closed c)"

text \<open>No session is active: the hook holds no session handle and is not listening.\<close>

definition no_session_active :: "assistant \<Rightarrow> bool" where
  "no_session_active st = (liveSessionRef st = None \<and> \<not> isListening st)"

definition transport_closed :: "assistant \<Rightarrow> nat \<Rightarrow> bool" where
  "transport_closed st sid =
     (sid < length (sessions st)
      \<and> (readyState (ws (sessions st ! sid)) = CLOSING \<or> readyState (ws (sessions st ! sid)) = CLOSED))"

text \<open>The session handle is set and its socket is open.\<close>

definition session_open :: "assistant \<Rightarrow> nat \<Rightarrow> bool" where
  "session_open st sid =
     (liveSessionRef st = Some sid \<and> sid < length (sessions st)
      \<and> readyState (ws (sessions st ! sid)) = OPEN)"





definition source_starts :: "effect list \<Rightarrow> effect list" where
  "source_starts es = filter (\<lambda>e. case e of SourceStart s t \<Rightarrow> True | _ \<Rightarrow> False) es"


text \<open>
  Inputs for the examples: services whose speech backend answers, whose payloads
  decode to one second of audio except a one-byte payload, which \<open>Int16Array\<close>
  rejects, whose frame capture fails, and during whose awaits the page does nothing;
  a session started on the freshly mounted hook; a start on the mounted hook that is
  waiting for its socket to open; a start on the mounted hook whose microphone request
  was refused; the started session one second into playing a segment scheduled at
  4 s, with the playback clock at 4.5 s; an envelope with no part, to be extended; and
  function calls.
\<close>

definition speaking_services :: services where
  "speaking_services =
     \<lparr>generateSpeech = (\<lambda>t. Returns ''AAAA''),
      decodeAudioData = (\<lambda>a. if a = ''AA=='' then Throws ''RangeError'' else Returns 1),
      apiKey = True,
      ctx_location = None, ctx_status = Idle, ctx_requestLocation = None,
      generateContent = (\<lambda>q l. Throws ''Error: unavailable''),
      getFrame = Throws ''Error: capture failed'',
      analyzeSceneForNavigation = (\<lambda>f l. Throws ''Error: unavailable''),
      meanwhile = (\<lambda>s. s)\<rparr>"

definition active_session :: assistant where
  "active_session = startSession (Returns ()) (Returns ()) assistant_init"

definition connecting_session :: assistant where
  "connecting_session = fst (start_setup (Returns ()) assistant_init)"

definition refused_microphone :: assistant where
  "refused_microphone = startSession (Throws ''NotAllowedError'') (Returns ()) assistant_init"

definition mid_playback :: assistant where
  "mid_playback =
     (fst (schedule_audio speaking_services ''AAAA''
             (active_session\<lparr>outputContextRef := Some \<lparr>currentTime = 4, ctx_closed = False\<rparr>\<rparr>)))
       \<lparr>outputContextRef := Some \<lparr>currentTime = 9 / 2, ctx_closed = False\<rparr>\<rparr>"

definition empty_message :: LiveServerMessage where
  "empty_message =
     \<lparr>inputTranscription = None, outputTranscription = None, interrupted = False,
      turnComplete = False, audioData = None, toolCall = None\<rparr>"


definition search_call :: ToolCall where
  "search_call = \<lparr>tc_name = ''webSearch'', tc_args = [(''query'', ''weather'')], tc_id = ''call-2''\<rparr>"



section \<open>Transport: sending on a socket that is not open\<close>

text \<open>
  C10. While the connection is not in the open state, \<open>sendRealtimeInput\<close> and
  \<open>sendToolResponse\<close> return normally and leave the session exactly as it was:
  no frame is sent and nothing is kept for later delivery.
\<close>

theorem send_not_open_discards:
  assumes "readyState (ws s) \<noteq> OPEN"
  shows "sendRealtimeInput s input = Returns s \<and> sendToolResponse s response = Returns s"
  using assms by (simp add: sendRealtimeInput_def sendToolResponse_def)

theorem send_not_open_discards_witness:
  "readyState (ws \<lparr>ws = \<lparr>readyState = CONNECTING, sent = [], bufferedAmount = 0\<rparr>,
                    callbacks = \<lparr>c_currentInputTranscription = [], c_currentOutputTranscription = []\<rparr>\<rparr>) \<noteq> OPEN
   \<and> sendRealtimeInput \<lparr>ws = \<lparr>readyState = CONNECTING, sent = [], bufferedAmount = 0\<rparr>,
                    callbacks = \<lparr>c_currentInputTranscription = [], c_currentOutputTranscription = []\<rparr>\<rparr>
        \<lparr>media_data = ''AAAA'', mimeType = ''audio/pcm;rate=16000''\<rparr>
     = Returns \<lparr>ws = \<lparr>readyState = CONNECTING, sent = [], bufferedAmount = 0\<rparr>,
                    callbacks = \<lparr>c_currentInputTranscription = [], c_currentOutputTranscription = []\<rparr>\<rparr>
   \<and> sendToolResponse \<lparr>ws = \<lparr>readyState = CONNECTING, sent = [], bufferedAmount = 0\<rparr>,
                    callbacks = \<lparr>c_currentInputTranscription = [], c_currentOutputTranscription = []\<rparr>\<rparr>
        \<lparr>fr_id = ''1'', fr_name = ''webSearch'', fr_response = ''Opened search.''\<rparr>
     = Returns \<lparr>ws = \<lparr>readyState = CONNECTING, sent = [], bufferedAmount = 0\<rparr>,
                    callbacks = \<lparr>c_currentInputTranscription = [], c_currentOutputTranscription = []\<rparr>\<rparr>"
  using send_not_open_discards
    [of "\<lparr>ws = \<lparr>readyState = CONNECTING, sent = [], bufferedAmount = 0\<rparr>,
          callbacks = \<lparr>c_currentInputTranscription = [], c_currentOutputTranscription = []\<rparr>\<rparr>"
        "\<lparr>media_data = ''AAAA'', mimeType = ''audio/pcm;rate=16000''\<rparr>"
        "\<lparr>fr_id = ''1'', fr_name = ''webSearch'', fr_response = ''Opened search.''\<rparr>"]
  by simp

section \<open>Scene analysis loop: emergency de-duplication\<close>

lemma split_from_not_Nil: "split_from sep acc s \<noteq> []"
  by (induction sep acc s rule: split_from.induct) auto

lemma split_from_two:
  "str_includes s sep \<Longrightarrow> sep \<noteq> [] \<Longrightarrow> \<exists>a b rest. split_from sep acc s = a # b # rest"
proof (induction s arbitrary: acc)
  case Nil
  then show ?case by simp
next
  case (Cons c cs)
  show ?case
  proof (cases "startsWith (c # cs) sep")
    case True
    obtain b rest where "split_from sep [] (drop (length sep) (c # cs)) = b # rest"
      using split_from_not_Nil by (meson list.exhaust)
    with True Cons.prems show ?thesis by simp
  next
    case False
    with Cons.prems have "str_includes cs sep" by simp
    from Cons.IH [OF this Cons.prems(2)] False show ?thesis by simp
  qed
qed

text \<open>Under the guard of the emergency check the extraction never meets \<open>undefined\<close>.\<close>

lemma extract_returns:
  assumes "str_includes desc emergency_marker"
  shows "\<exists>t. extract_emergency_type desc = Returns t"
proof -
  have ne: "emergency_marker \<noteq> []" by (simp add: emergency_marker_def)
  obtain a seg rest where s1: "split desc emergency_marker = a # seg # rest"
    using split_from_two [OF assms ne] unfolding split_def by blast
  obtain t ts where s2: "split seg ''.'' = t # ts"
    using split_from_not_Nil unfolding split_def by (meson list.exhaust)
  show ?thesis
    by (simp add: extract_emergency_type_def s1 s2 numeral_eq_Suc)
qed

lemma check_emergency_returns: "\<exists>v'. check_emergency env result v = Returns v'"
proof (cases "str_includes (sceneDescription result) emergency_marker \<and> hasEmergencyTrigger env")
  case True
  then obtain t where "extract_emergency_type (sceneDescription result) = Returns t"
    using extract_returns by blast
  with True show ?thesis by (simp add: check_emergency_def)
next
  case False
  then show ?thesis by (auto simp add: check_emergency_def)
qed

text \<open>
  The \<open>try\<close> block fails only when \<open>captureFrame\<close> or the detection request fails, and
  then no state update has been made yet.
\<close>

lemma analysis_try_failure:
  assumes "analysis_try env v = (v', Some e)"
  shows "v' = v \<and> (captureFrame env = Throws e \<or>
           (\<exists>frame. captureFrame env = Returns (Some frame) \<and> generateObjectDescription env = Throws e))"
proof -
  have no_throw: "\<And>r w x. check_emergency env r w \<noteq> Throws x"
    using check_emergency_returns by (metis outcome.distinct(1))
  show ?thesis
    using assms no_throw
    by (auto simp add: analysis_try_def Let_def split: outcome.splits option.splits)
qed

text \<open>
  C1, as the spec states it, fails: the callback is not invoked once per distinct
  emergency type. The ref keeps only the latest type, so with the descriptions
  Fire, Flood, Fire in three successive successful cycles the callback is invoked
  three times for two distinct types.
\<close>

theorem emergency_once_per_type_counterexample:
  "map extract_emergency_type
     [''CRITICAL EMERGENCY: Fire. Smoke fills the room.'',
      ''CRITICAL EMERGENCY: Flood. Water is rising.'',
      ''CRITICAL EMERGENCY: Fire. Smoke fills the room.'']
     = [Returns ''Fire'', Returns ''Flood'', Returns ''Fire'']
   \<and> emergency_triggers
       (run_cycles
          [scene_cycle ''CRITICAL EMERGENCY: Fire. Smoke fills the room.'',
           scene_cycle ''CRITICAL EMERGENCY: Flood. Water is rising.'',
           scene_cycle ''CRITICAL EMERGENCY: Fire. Smoke fills the room.'']
          visualizer_init) = 3"
  by (simp add: run_cycles_def scene_cycle_def visualizer_init_def runAnalysis_def analysis_try_def
      check_emergency_def extract_emergency_type_def split_def emergency_marker_def trim_def
      isWhiteSpace_def emergency_triggers_def Let_def)

text \<open>
  C1, amended. In a successful cycle whose scene description contains the marker, with
  an emergency callback supplied, the type is extracted, the callback is invoked once
  if that type differs from the type stored by the last trigger and not at all if it
  is the same, and the extracted type is the stored one afterwards.
\<close>

theorem emergency_fires_on_change:
  assumes "webcam_isEnabled env" and "isDetectionEnabled v" and "onLine env" and "\<not> isAnalyzing v"
    and "captureFrame env = Returns (Some frame)"
    and "generateObjectDescription env = Returns result"
    and "str_includes (sceneDescription result) emergency_marker"
    and "hasEmergencyTrigger env"
  shows "\<exists>t. extract_emergency_type (sceneDescription result) = Returns t
           \<and> emergencyTriggered (runAnalysis env v) = Some t
           \<and> emergency_triggers (runAnalysis env v) =
               emergency_triggers v + (if emergencyTriggered v = Some t then 0 else 1)"
proof -
  obtain t where t: "extract_emergency_type (sceneDescription result) = Returns t"
    using extract_returns [OF assms(7)] by blast
  show ?thesis
    using assms
    by (simp add: t runAnalysis_def analysis_try_def check_emergency_def Let_def emergency_triggers_def)
qed

theorem emergency_fires_on_change_witness:
  "webcam_isEnabled (scene_cycle ''CRITICAL EMERGENCY: Fire. Smoke fills the room.'')
   \<and> isDetectionEnabled visualizer_init
   \<and> onLine (scene_cycle ''CRITICAL EMERGENCY: Fire. Smoke fills the room.'')
   \<and> \<not> isAnalyzing visualizer_init
   \<and> str_includes ''CRITICAL EMERGENCY: Fire. Smoke fills the room.'' emergency_marker
   \<and> hasEmergencyTrigger (scene_cycle ''CRITICAL EMERGENCY: Fire. Smoke fills the room.'')
   \<and> emergencyTriggered
        (runAnalysis (scene_cycle ''CRITICAL EMERGENCY: Fire. Smoke fills the room.'') visualizer_init)
       = Some ''Fire''
   \<and> emergency_triggers
        (runAnalysis (scene_cycle ''CRITICAL EMERGENCY: Fire. Smoke fills the room.'') visualizer_init) = 1"
proof -
  let ?d = "''CRITICAL EMERGENCY: Fire. Smoke fills the room.''"
  let ?r = "\<lparr>sceneDescription = ?d, spatialAnalysis = [], detectedObjects = [], detectedFaces = []\<rparr>"
  have h1: "webcam_isEnabled (scene_cycle ?d)" and h3: "onLine (scene_cycle ?d)"
    and h8: "hasEmergencyTrigger (scene_cycle ?d)"
    and h5: "captureFrame (scene_cycle ?d) = Returns (Some \<lparr>media_data = ''AAAA'', mimeType = ''image/jpeg''\<rparr>)"
    and h6: "generateObjectDescription (scene_cycle ?d) = Returns ?r"
    by (simp_all add: scene_cycle_def)
  have h2: "isDetectionEnabled visualizer_init" and h4: "\<not> isAnalyzing visualizer_init"
    and s0: "emergencyTriggered visualizer_init = None" and n0: "emergency_triggers visualizer_init = 0"
    by (simp_all add: visualizer_init_def emergency_triggers_def)
  have h7: "str_includes (sceneDescription ?r) emergency_marker"
    by (simp add: emergency_marker_def)
  have ex: "extract_emergency_type (sceneDescription ?r) = Returns ''Fire''"
    by (simp add: extract_emergency_type_def split_def emergency_marker_def trim_def isWhiteSpace_def)
  from emergency_fires_on_change [OF h1 h2 h3 h4 h5 h6 h7 h8]
  have "emergencyTriggered (runAnalysis (scene_cycle ?d) visualizer_init) = Some ''Fire''
      \<and> emergency_triggers (runAnalysis (scene_cycle ?d) visualizer_init) = 1"
    using ex s0 n0 by auto
  with h1 h2 h3 h4 h7 h8 show ?thesis by simp
qed

section \<open>Scene analysis loop: failure classification and backoff\<close>







section \<open>Location provider: request coalescing\<close>

lemma nth_opt_eq: "nth_opt xs i = (if i < length xs then Some (xs ! i) else None)"
  by (induction xs i rule: nth_opt.induct) auto

lemma request_n_in_flight:
  "promiseRef g = Some p \<Longrightarrow> request_n n supported g = g\<lparr>returned := returned g @ replicate n p\<rparr>"
proof (induction n)
  case 0
  then show ?case by simp
next
  case (Suc n)
  then show ?case
    by (simp add: requestLocation_def replicate_append_same)
qed

lemma request_first:
  assumes "promiseRef g = None"
  shows "requestLocation True g =
           g\<lparr>status := Pending, geo_error := None, promises := promises g @ [Unsettled],
             platform_requests := Suc (platform_requests g), promiseRef := Some (length (promises g)),
             returned := returned g @ [length (promises g)]\<rparr>"
  using assms by (simp add: requestLocation_def Let_def)

lemma request_n_Suc_left: "request_n (Suc n) s g = request_n n s (requestLocation s g)"
  by (induction n) simp_all

lemma request_n_coalesce:
  assumes "promiseRef g = None"
  shows "request_n (Suc n) True g =
           g\<lparr>status := Pending, geo_error := None, promises := promises g @ [Unsettled],
             platform_requests := Suc (platform_requests g), promiseRef := Some (length (promises g)),
             returned := returned g @ replicate (Suc n) (length (promises g))\<rparr>"
proof -
  have "request_n (Suc n) True g = request_n n True (requestLocation True g)"
    by (rule request_n_Suc_left)
  also have "\<dots> = (requestLocation True g)\<lparr>returned := returned (requestLocation True g) @ replicate n (length (promises g))\<rparr>"
    by (rule request_n_in_flight) (simp add: request_first [OF assms])
  finally show ?thesis by (simp add: request_first [OF assms])
qed

text \<open>
  C5. From a state with no request in flight, \<open>n + 1\<close> calls of \<open>requestLocation()\<close>
  made before the platform answers issue exactly one platform request, and when the
  platform answers (a position, or an error or timeout) each of the \<open>n + 1\<close> callers'
  promises is fulfilled, with the same value: the position, or null. Where the
  platform has no geolocation the call issues no platform request, sets the status to
  unsupported and returns a promise already fulfilled with null. No caller's promise
  is rejected.
\<close>

theorem requestLocation_single_flight:
  assumes "promiseRef g = None"
  shows "platform_requests (request_n (Suc n) True g) = Suc (platform_requests g)
       \<and> (\<forall>k < Suc n. caller_result (platform_reply (length (promises g)) reply (request_n (Suc n) True g))
                          (length (returned g) + k) = Some (Fulfilled (reply_value reply)))
       \<and> platform_requests (requestLocation False g) = platform_requests g
       \<and> status (requestLocation False g) = Unsupported
       \<and> caller_result (requestLocation False g) (length (returned g)) = Some (Fulfilled None)"
proof -
  let ?p = "length (promises g)"
  let ?gn = "request_n (Suc n) True g"
  have gn: "?gn = g\<lparr>status := Pending, geo_error := None, promises := promises g @ [Unsettled],
             platform_requests := Suc (platform_requests g), promiseRef := Some ?p,
             returned := returned g @ replicate (Suc n) ?p\<rparr>"
    by (rule request_n_coalesce [OF assms])
  have c1: "platform_requests ?gn = Suc (platform_requests g)"
    by (subst gn) simp
  have c2: "caller_result (platform_reply ?p reply ?gn) (length (returned g) + k) = Some (Fulfilled (reply_value reply))"
    if "k < Suc n" for k
    using that unfolding gn
    by (cases reply) (simp_all add: platform_reply_def caller_result_def nth_opt_eq resolve_def
        reply_value_def nth_append del: replicate_Suc request_n.simps)
  have c3: "platform_requests (requestLocation False g) = platform_requests g
       \<and> status (requestLocation False g) = Unsupported
       \<and> caller_result (requestLocation False g) (length (returned g)) = Some (Fulfilled None)"
    using assms by (simp add: requestLocation_def Let_def caller_result_def nth_opt_eq)
  from c1 c2 c3 show ?thesis by blast
qed

theorem requestLocation_single_flight_witness:
  "promiseRef geolocation_init = None
   \<and> platform_requests (request_n 3 True geolocation_init) = 1
   \<and> caller_result (platform_reply 0 (Inl ''Timeout expired'') (request_n 3 True geolocation_init)) 0
       = Some (Fulfilled None)
   \<and> caller_result (platform_reply 0 (Inl ''Timeout expired'') (request_n 3 True geolocation_init)) 1
       = Some (Fulfilled None)
   \<and> caller_result (platform_reply 0 (Inl ''Timeout expired'') (request_n 3 True geolocation_init)) 2
       = Some (Fulfilled None)
   \<and> status (requestLocation False geolocation_init) = Unsupported"
proof -
  have h: "promiseRef geolocation_init = None"
    by (simp add: geolocation_init_def)
  have three: "(3::nat) = Suc 2" by simp
  have z: "length (promises geolocation_init) = 0" "length (returned geolocation_init) = 0"
    "platform_requests geolocation_init = 0"
    by (simp_all add: geolocation_init_def)
  from requestLocation_single_flight [OF h, of 2 "Inl ''Timeout expired''"]
  show ?thesis
    unfolding three [symmetric] z reply_value_def using h by auto
qed

section \<open>Media capture adapter: one stream at a time\<close>

lemma release_existing_inactive:
  assumes "tracked w" and "i < length (media_streams (release_existing (render_webcam w) w))"
  shows "\<not> stream_active (media_streams (release_existing (render_webcam w) w)) i"
proof (cases "stream w")
  case None
  with assms show ?thesis
    by (auto simp add: release_existing_def render_webcam_def tracked_def)
next
  case (Some s)
  show ?thesis
  proof (cases "i = s")
    case True
    with Some assms(2) show ?thesis
      by (auto simp add: release_existing_def render_webcam_def stop_tracks_def stream_active_def
          split: if_splits)
  next
    case False
    with Some assms show ?thesis
      by (auto simp add: release_existing_def render_webcam_def stop_tracks_def stream_active_def
          tracked_def split: if_splits)
  qed
qed

text \<open>
  What does hold: as long as calls do not overlap and no capability probe throws,
  the only stream that can be active is the one the state refers to, so at most one.
\<close>

lemma tracked_enable:
  assumes "tracked w" and "probe_returns answer"
  shows "tracked (enableWebcam mode_arg answer w)"
proof -
  define mode where "mode = (case mode_arg of None \<Rightarrow> cl_facingMode (render_webcam w) | Some m \<Rightarrow> m)"
  show ?thesis
  proof (cases "already_live (render_webcam w) w mode")
    case True
    with assms show ?thesis by (simp add: enableWebcam_def enable_begin_def mode_def)
  next
    case False
    have off: "\<And>i. i < length (media_streams (release_existing (render_webcam w) w)) \<Longrightarrow>
                 \<not> stream_active (media_streams (release_existing (render_webcam w) w)) i"
      using release_existing_inactive [OF assms(1)] by blast
    show ?thesis
    proof (cases answer)
      case (Throws name)
      with False off show ?thesis
        by (simp add: enableWebcam_def enable_begin_def enable_finish_def enable_failed_def
            mode_def [symmetric] Let_def tracked_def)
    next
      case (Returns probe)
      with assms(2) obtain torch where "probe = Returns torch"
        by (cases probe) (simp_all add: probe_returns_def)
      with Returns False off show ?thesis
        by (auto simp add: enableWebcam_def enable_begin_def enable_finish_def
            mode_def [symmetric] Let_def tracked_def stream_active_def nth_append less_Suc_eq)
    qed
  qed
qed

lemma tracked_disable: "tracked w \<Longrightarrow> tracked (disableWebcam w)"
  using release_existing_inactive [of w] by (simp add: disableWebcam_def tracked_def)

lemma tracked_step: "tracked w \<Longrightarrow> call_probe_returns c \<Longrightarrow> tracked (cam_step w c)"
  by (cases c) (simp_all add: tracked_enable tracked_disable toggleCamera_def)

lemma tracked_run: "tracked w \<Longrightarrow> list_all call_probe_returns calls \<Longrightarrow> tracked (cam_run calls w)"
  unfolding cam_run_def by (induction calls arbitrary: w) (simp_all add: tracked_step)

lemma tracked_active_le_1:
  assumes "tracked w"
  shows "length (active_streams w) \<le> 1"
proof -
  have d: "distinct (active_streams w)" by (simp add: active_streams_def)
  have sub: "set (active_streams w) \<subseteq> (case stream w of None \<Rightarrow> {} | Some s \<Rightarrow> {s})"
    using assms by (auto simp add: active_streams_def tracked_def split: option.splits)
  have "card (set (active_streams w)) \<le> 1"
  proof (cases "stream w")
    case None
    with sub show ?thesis by simp
  next
    case (Some s)
    with sub have "set (active_streams w) \<subseteq> {s}" by simp
    then have "card (set (active_streams w)) \<le> card {s}" by (intro card_mono) simp_all
    then show ?thesis by simp
  qed
  with d show ?thesis by (simp add: distinct_card)
qed

lemma sequential_probed_single_stream:
  assumes "list_all call_probe_returns calls"
  shows "length (active_streams (cam_run calls webcam_init)) \<le> 1"
proof -
  have "tracked webcam_init" by (simp add: tracked_def webcam_init_def)
  then show ?thesis using assms tracked_run tracked_active_le_1 by blast
qed

text \<open>
  The guard, in terms of the state: a call on the current render is a no-op exactly
  when the camera is enabled, the state holds a stream that is active, and the facing
  mode is the one asked for. Every other call stops the tracks of the stream the
  state holds, if any, and then asks the device for a stream of the mode.
\<close>

lemma enable_guard_noop:
  assumes "isEnabled w" and "stream w = Some s" and "stream_active (media_streams w) s"
    and "facingMode w = mode"
  shows "enableWebcam (Some mode) answer w = w"
  using assms
  by (simp add: enableWebcam_def enable_begin_def already_live_def render_webcam_def)

lemma enable_guard_requests:
  assumes "\<not> (isEnabled w \<and> facingMode w = mode
               \<and> (\<exists>s. stream w = Some s \<and> stream_active (media_streams w) s))"
  shows "enable_begin (render_webcam w) (Some mode) w
           = ((release_existing (render_webcam w) w)
                \<lparr>device_log := device_log (release_existing (render_webcam w) w) @ [GetUserMedia mode]\<rparr>,
              Some mode)"
    and "\<forall>s. stream w = Some s \<longrightarrow>
           \<not> stream_active (media_streams (fst (enable_begin (render_webcam w) (Some mode) w))) s"
proof -
  have g: "\<not> already_live (render_webcam w) w mode"
    using assms by (auto simp add: already_live_def render_webcam_def split: option.splits)
  show "enable_begin (render_webcam w) (Some mode) w
           = ((release_existing (render_webcam w) w)
                \<lparr>device_log := device_log (release_existing (render_webcam w) w) @ [GetUserMedia mode]\<rparr>,
              Some mode)"
    using g by (simp add: enable_begin_def Let_def)
  show "\<forall>s. stream w = Some s \<longrightarrow>
           \<not> stream_active (media_streams (fst (enable_begin (render_webcam w) (Some mode) w))) s"
    using g
    by (auto simp add: enable_begin_def Let_def release_existing_def render_webcam_def
        stop_tracks_def stream_active_def)
qed

text \<open>
  C6 on the code. First input: \<open>enableWebcam()\<close> is called on the mounted hook,
  \<open>getUserMedia\<close> answers with a stream and \<open>getCapabilities()\<close> throws a \<open>TypeError\<close>;
  the \<open>catch\<close> sets the state's stream to null without stopping the new stream.
  \<open>enableWebcam()\<close> is then called again and succeeds: nothing is stopped before the
  second request, and both streams are active. Second input: \<open>enableWebcam()\<close> is
  called twice on the mounted hook before \<open>getUserMedia\<close> has answered the first call;
  both calls see no stream to stop, each requests one, and both streams are active
  while the state refers to the second only.
\<close>

theorem enable_leaves_two_streams:
  "active_streams (cam_run [Enable None (Returns (Throws ''TypeError'')),
                            Enable None (Returns (Returns False))] webcam_init) = [0, 1]
   \<and> device_log (cam_run [Enable None (Returns (Throws ''TypeError'')),
                          Enable None (Returns (Returns False))] webcam_init)
       = [GetUserMedia User, GetUserMedia User]
   \<and> active_streams (enable_twice None (Returns (Returns False)) (Returns (Returns False)) webcam_init)
       = [0, 1]
   \<and> stream (enable_twice None (Returns (Returns False)) (Returns (Returns False)) webcam_init) = Some 1
   \<and> device_log (enable_twice None (Returns (Returns False)) (Returns (Returns False)) webcam_init)
       = [GetUserMedia User, GetUserMedia User]"
  by (simp add: cam_run_def enableWebcam_def enable_twice_def enable_begin_def enable_finish_def
      enable_failed_def already_live_def release_existing_def render_webcam_def webcam_init_def
      active_streams_def stream_active_def Let_def)

section \<open>Orchestrator: what the helpers leave alone\<close>






section \<open>Orchestrator: tool dispatch\<close>











section \<open>Orchestrator: the emergency tool\<close>




section \<open>Orchestrator: interruption and the scheduling clock\<close>

text \<open>
  C3, as the spec states it, fails in one point: the interruption block does not set
  the scheduling clock to the current time, it sets it to zero. With a segment playing
  and the playback clock at 4.5 s, an interruption empties the queue, stops the
  source, and leaves the scheduling clock at 0.
\<close>

theorem interruption_clock_counterexample:
  "map_option currentTime
     (outputContextRef (fst (handleMessage (render_closure assistant_init) speaking_services
        (empty_message\<lparr>interrupted := True\<rparr>) mid_playback))) = Some (9 / 2)
   \<and> playingSources mid_playback = [0]
   \<and> playingSources (fst (handleMessage (render_closure assistant_init) speaking_services
        (empty_message\<lparr>interrupted := True\<rparr>) mid_playback)) = []
   \<and> nextStartTime (fst (handleMessage (render_closure assistant_init) speaking_services
        (empty_message\<lparr>interrupted := True\<rparr>) mid_playback)) = 0"
  by (simp add: handleMessage_def empty_message_def apply_transcriptions_def handle_interrupted_def
      stop_all_def render_closure_def assistant_init_def mid_playback_def active_session_def
      startSession_def start_setup_def start_opened_def schedule_audio_def start_source_def speaking_services_def Let_def)

text \<open>
  C3, amended. The interruption block stops every scheduled source, empties the
  playback queue and sets the scheduling clock to zero. Whenever the streaming branch
  schedules a segment, the start time it hands to \<open>source.start\<close> is the larger of the
  scheduling clock and the playback clock read at that moment, so it is never earlier
  than the playback clock; for the segment scheduled next after an interruption it is
  the playback clock itself.
\<close>

theorem interruption_then_schedule:
  assumes "outputContextRef st = Some ctx"
    and "outputNodeRef st = Some node"
    and "decodeAudioData env audio = Returns duration"
    and "0 \<le> currentTime ctx"
  shows "playingSources (handle_interrupted cl st) = []
       \<and> effects (handle_interrupted cl st) = effects st @ map SourceStop (playingSources st)
       \<and> nextStartTime (handle_interrupted cl st) = 0
       \<and> snd (schedule_audio env audio st) = None
       \<and> effects (fst (schedule_audio env audio st))
           = effects st @ [SourceStart (sources_created st) (max (nextStartTime st) (currentTime ctx))]
       \<and> currentTime ctx \<le> max (nextStartTime st) (currentTime ctx)
       \<and> effects (fst (schedule_audio env audio (handle_interrupted cl st)))
           = effects st @ map SourceStop (playingSources st)
               @ [SourceStart (sources_created st) (currentTime ctx)]"
proof -
  have a: "playingSources (handle_interrupted cl st) = []"
    and b: "effects (handle_interrupted cl st) = effects st @ map SourceStop (playingSources st)"
    and c: "nextStartTime (handle_interrupted cl st) = 0"
    and k: "outputContextRef (handle_interrupted cl st) = outputContextRef st"
      "outputNodeRef (handle_interrupted cl st) = outputNodeRef st"
      "sources_created (handle_interrupted cl st) = sources_created st"
    by (simp_all add: handle_interrupted_def stop_all_def addMessage_def Let_def)
  have d: "snd (schedule_audio env audio st) = None"
    and e: "effects (fst (schedule_audio env audio st))
              = effects st @ [SourceStart (sources_created st) (max (nextStartTime st) (currentTime ctx))]"
    using assms(1-3) by (simp_all add: schedule_audio_def start_source_def Let_def)
  have f: "effects (fst (schedule_audio env audio (handle_interrupted cl st)))
             = effects st @ map SourceStop (playingSources st)
                 @ [SourceStart (sources_created st) (currentTime ctx)]"
    using assms by (simp add: schedule_audio_def start_source_def Let_def k b c max_def)
  from a b c d e f show ?thesis by simp
qed

theorem interruption_then_schedule_witness:
  "outputContextRef mid_playback = Some \<lparr>currentTime = 9 / 2, ctx_closed = False\<rparr>
   \<and> outputNodeRef mid_playback = Some \<lparr>is_connected = True\<rparr>
   \<and> decodeAudioData speaking_services ''AAAA'' = Returns 1
   \<and> effects (fst (schedule_audio speaking_services ''AAAA'' mid_playback))
       = [SourceStart 0 4, SourceStart 1 5]
   \<and> effects (fst (schedule_audio speaking_services ''AAAA''
                      (handle_interrupted (render_closure assistant_init) mid_playback)))
       = [SourceStart 0 4, SourceStop 0, SourceStart 1 (9 / 2)]"
proof -
  have m: "mid_playback =
     active_session\<lparr>outputContextRef := Some \<lparr>currentTime = 9 / 2, ctx_closed = False\<rparr>,
                    effects := [SourceStart 0 4], nextStartTime := 5, playingSources := [0],
                    sources_created := 1\<rparr>"
    by (simp add: mid_playback_def active_session_def startSession_def start_setup_def start_opened_def assistant_init_def
        schedule_audio_def start_source_def speaking_services_def Let_def)
  have h1: "outputContextRef mid_playback = Some \<lparr>currentTime = 9 / 2, ctx_closed = False\<rparr>"
    by (simp add: m)
  have h2: "outputNodeRef mid_playback = Some \<lparr>is_connected = True\<rparr>"
    by (simp add: m active_session_def startSession_def start_setup_def start_opened_def Let_def)
  have h3: "decodeAudioData speaking_services ''AAAA'' = Returns 1"
    by (simp add: speaking_services_def)
  have h4: "0 \<le> currentTime \<lparr>currentTime = 9 / 2, ctx_closed = False\<rparr>" by simp
  have e0: "effects mid_playback = [SourceStart 0 4]" "playingSources mid_playback = [0]"
    "sources_created mid_playback = 1" "nextStartTime mid_playback = 5"
    by (simp_all add: m)
  from interruption_then_schedule [OF h1 h2 h3 h4, of "render_closure assistant_init"] h1 h2 h3
  show ?thesis unfolding e0 by simp
qed

section \<open>Orchestrator: turn completion\<close>

text \<open>
  What the turn-complete block does with the values its closure holds: when both are
  non-empty it appends the user message and then the assistant message, and in every
  case it empties both buffers and clears the interrupted flag.
\<close>

lemma handle_turnComplete_closure:
  "messages (handle_turnComplete cl st) =
     messages st
       @ (if c_currentInputTranscription cl \<noteq> [] then [user_message (c_currentInputTranscription cl)] else [])
       @ (if c_currentOutputTranscription cl \<noteq> [] then [ai_message (c_currentOutputTranscription cl)] else [])"
  "currentInputTranscription (handle_turnComplete cl st) = []"
  "currentOutputTranscription (handle_turnComplete cl st) = []"
  "\<not> hasAIBeenInterrupted (handle_turnComplete cl st)"
  by (simp_all add: handle_turnComplete_def addMessage_def Let_def)

text \<open>
  C4 on the code. A session is started on the freshly mounted hook; its socket
  delivers an input transcription, an output transcription and then turn-complete.
  When turn-complete arrives both buffers are non-empty. The handler the session
  calls is the \<open>handleMessage\<close> of the render that started the session, whose
  \<open>currentInputTranscription\<close> and \<open>currentOutputTranscription\<close> are the empty strings
  of that render: no log entry is appended. The buffers are emptied and the
  interrupted flag is clear.
\<close>

theorem turn_complete_logs_nothing:
  "currentInputTranscription
     (deliver_all speaking_services 0
        [empty_message\<lparr>inputTranscription := Some ''turn on the light''\<rparr>,
         empty_message\<lparr>outputTranscription := Some ''Okay.''\<rparr>] active_session) = ''turn on the light''
   \<and> currentOutputTranscription
     (deliver_all speaking_services 0
        [empty_message\<lparr>inputTranscription := Some ''turn on the light''\<rparr>,
         empty_message\<lparr>outputTranscription := Some ''Okay.''\<rparr>] active_session) = ''Okay.''
   \<and> messages
     (deliver_all speaking_services 0
        [empty_message\<lparr>inputTranscription := Some ''turn on the light''\<rparr>,
         empty_message\<lparr>outputTranscription := Some ''Okay.''\<rparr>,
         empty_message\<lparr>turnComplete := True\<rparr>] active_session) = []
   \<and> currentInputTranscription
     (deliver_all speaking_services 0
        [empty_message\<lparr>inputTranscription := Some ''turn on the light''\<rparr>,
         empty_message\<lparr>outputTranscription := Some ''Okay.''\<rparr>,
         empty_message\<lparr>turnComplete := True\<rparr>] active_session) = []
   \<and> currentOutputTranscription
     (deliver_all speaking_services 0
        [empty_message\<lparr>inputTranscription := Some ''turn on the light''\<rparr>,
         empty_message\<lparr>outputTranscription := Some ''Okay.''\<rparr>,
         empty_message\<lparr>turnComplete := True\<rparr>] active_session) = []"
  by (simp add: deliver_all_def deliver_def handleMessage_def empty_message_def apply_transcriptions_def
      handle_turnComplete_def active_session_def startSession_def start_setup_def start_opened_def assistant_init_def render_closure_def
      addMessage_def Let_def)

section \<open>Orchestrator: stopping the session\<close>

text \<open>What one call of \<open>stopSession()\<close> does to the state, promises and exception, field by field.\<close>

lemma stopSession_closed_form:
  "stopSession st =
     ((close_live_session (st\<lparr>isListening := False, isAssistantActive := False\<rparr>))
        \<lparr>inputSourceRef := map_option (\<lambda>n. n\<lparr>is_connected := False\<rparr>) (inputSourceRef st),
         processorRef := map_option (\<lambda>n. n\<lparr>is_connected := False\<rparr>) (processorRef st),
         audioContextRef := map_option (\<lambda>c. c\<lparr>ctx_closed := True\<rparr>) (audioContextRef st),
         outputContextRef := map_option (\<lambda>c. c\<lparr>ctx_closed := True\<rparr>) (outputContextRef st),
         liveSessionRef := None\<rparr>,
      (case audioContextRef st of None \<Rightarrow> []
       | Some c \<Rightarrow> [if ctx_closed c then Rejected ''InvalidStateError'' else Fulfilled ()])
      @ (case outputContextRef st of None \<Rightarrow> []
         | Some c \<Rightarrow> [if ctx_closed c then Rejected ''InvalidStateError'' else Fulfilled ()]),
      None)"
  by (simp add: stopSession_def close_live_session_def disconnect_ref_def close_ref_def
      node_disconnect_def context_close_def Let_def split: option.splits)

lemma stopped_fields:
  "isListening (stopped st) = False"
  "isAssistantActive (stopped st) = False"
  "isConnecting (stopped st) = isConnecting st"
  "liveSessionRef (stopped st) = None"
  "inputSourceRef (stopped st) = map_option (\<lambda>n. n\<lparr>is_connected := False\<rparr>) (inputSourceRef st)"
  "processorRef (stopped st) = map_option (\<lambda>n. n\<lparr>is_connected := False\<rparr>) (processorRef st)"
  "audioContextRef (stopped st) = map_option (\<lambda>c. c\<lparr>ctx_closed := True\<rparr>) (audioContextRef st)"
  "outputContextRef (stopped st) = map_option (\<lambda>c. c\<lparr>ctx_closed := True\<rparr>) (outputContextRef st)"
  "outputNodeRef (stopped st) = outputNodeRef st"
  "playingSources (stopped st) = playingSources st"
  by (simp_all add: stopped_def stopSession_closed_form close_live_session_def split: option.splits)

lemma stopped_sessions:
  "sessions (stopped st) =
     (case liveSessionRef st of
        None \<Rightarrow> sessions st
      | Some sid \<Rightarrow> if sid < length (sessions st)
                    then (sessions st)[sid := session_close (sessions st ! sid)] else sessions st)"
  by (simp add: stopped_def stopSession_closed_form close_live_session_def split: option.splits)

lemma stopped_closes:
  assumes "liveSessionRef st = Some sid" and "sid < length (sessions st)"
  shows "transport_closed (stopped st) sid"
  using assms
  by (simp add: stopped_sessions transport_closed_def session_close_def ws_close_def
      split: ready_state.splits)

lemma stopped_no_session:
  assumes "no_session_active st"
  shows "stopped st =
           st\<lparr>isAssistantActive := False,
              inputSourceRef := map_option (\<lambda>n. n\<lparr>is_connected := False\<rparr>) (inputSourceRef st),
              processorRef := map_option (\<lambda>n. n\<lparr>is_connected := False\<rparr>) (processorRef st),
              audioContextRef := map_option (\<lambda>c. c\<lparr>ctx_closed := True\<rparr>) (audioContextRef st),
              outputContextRef := map_option (\<lambda>c. c\<lparr>ctx_closed := True\<rparr>) (outputContextRef st)\<rparr>"
  using assms
  by (simp add: no_session_active_def stopped_def stopSession_closed_form close_live_session_def)

lemma stopped_idempotent: "stopped (stopped st) = stopped st"
proof -
  have n: "no_session_active (stopped st)"
    by (simp add: no_session_active_def stopped_fields)
  show ?thesis
    unfolding stopped_no_session [OF n]
    by (simp add: stopped_fields option.map_comp comp_def)
qed

text \<open>
  C9, as the spec states it, fails on four inputs. The microphone request of a start was
  refused: no session is active and the flags are at rest, but the two audio contexts
  the start created are open, and \<open>stopSession()\<close> closes them, so the call is not a
  no-op. A start is waiting for its socket to open: \<open>stopSession()\<close> leaves the
  connecting flag set, so the hook is not idle afterwards. A segment is playing on the
  started session: after \<open>stopSession()\<close> the output gain node is still connected and
  the segment's source is still in the set of playing sources. \<open>stopSession()\<close> has
  already run on the started session: a second call closes the two closed contexts
  again, and both promises are rejected with \<open>InvalidStateError\<close>.
\<close>

theorem stopSession_counterexample:
  "no_session_active refused_microphone \<and> idle refused_microphone
   \<and> audioContextRef refused_microphone = Some \<lparr>currentTime = 0, ctx_closed = False\<rparr>
   \<and> audioContextRef (stopped refused_microphone) = Some \<lparr>currentTime = 0, ctx_closed = True\<rparr>
   \<and> stopped refused_microphone \<noteq> refused_microphone
   \<and> no_session_active connecting_session
   \<and> snd (snd (stopSession connecting_session)) = None
   \<and> isConnecting (stopped connecting_session)
   \<and> \<not> idle (stopped connecting_session)
   \<and> session_open mid_playback 0
   \<and> outputNodeRef (stopped mid_playback) = Some \<lparr>is_connected = True\<rparr>
   \<and> playingSources (stopped mid_playback) = [0]
   \<and> no_session_active (stopped active_session)
   \<and> fst (snd (stopSession (stopped active_session)))
       = [Rejected ''InvalidStateError'', Rejected ''InvalidStateError'']"
proof -
  have r: "refused_microphone =
     assistant_init\<lparr>messages := [ai_message ''Connection failed. Check permissions.''],
       audioContextRef := Some \<lparr>currentTime = 0, ctx_closed = False\<rparr>,
       outputContextRef := Some \<lparr>currentTime = 0, ctx_closed = False\<rparr>,
       outputNodeRef := Some \<lparr>is_connected = True\<rparr>\<rparr>"
    by (simp add: refused_microphone_def startSession_def start_setup_def start_failed_def
        addMessage_def assistant_init_def Let_def)
  have c: "liveSessionRef connecting_session = None" "\<not> isListening connecting_session"
    "isConnecting connecting_session"
    by (simp_all add: connecting_session_def start_setup_def assistant_init_def Let_def)
  have a: "liveSessionRef active_session = Some 0"
    "audioContextRef active_session = Some \<lparr>currentTime = 0, ctx_closed = False\<rparr>"
    "outputContextRef active_session = Some \<lparr>currentTime = 0, ctx_closed = False\<rparr>"
    "outputNodeRef active_session = Some \<lparr>is_connected = True\<rparr>"
    "playingSources active_session = []" "sources_created active_session = 0"
    "length (sessions active_session) = 1"
    "readyState (ws (sessions active_session ! 0)) = OPEN"
    by (simp_all add: active_session_def startSession_def start_setup_def start_opened_def
        assistant_init_def Let_def)
  have m: "liveSessionRef mid_playback = Some 0" "length (sessions mid_playback) = 1"
    "readyState (ws (sessions mid_playback ! 0)) = OPEN"
    "outputNodeRef mid_playback = Some \<lparr>is_connected = True\<rparr>"
    "playingSources mid_playback = [0]"
    by (simp_all add: mid_playback_def schedule_audio_def start_source_def speaking_services_def
        a Let_def)
  have p1: "no_session_active refused_microphone \<and> idle refused_microphone
     \<and> audioContextRef refused_microphone = Some \<lparr>currentTime = 0, ctx_closed = False\<rparr>
     \<and> audioContextRef (stopped refused_microphone) = Some \<lparr>currentTime = 0, ctx_closed = True\<rparr>"
    by (simp add: stopped_fields) (simp add: r no_session_active_def idle_def assistant_init_def)
  then have p2: "stopped refused_microphone \<noteq> refused_microphone"
    by auto
  have p3: "no_session_active connecting_session
     \<and> snd (snd (stopSession connecting_session)) = None
     \<and> isConnecting (stopped connecting_session) \<and> \<not> idle (stopped connecting_session)"
    by (simp add: no_session_active_def idle_def stopped_fields c stopSession_closed_form)
  have p4: "session_open mid_playback 0
     \<and> outputNodeRef (stopped mid_playback) = Some \<lparr>is_connected = True\<rparr>
     \<and> playingSources (stopped mid_playback) = [0]"
    by (simp add: session_open_def stopped_fields m)
  have p5: "no_session_active (stopped active_session)
     \<and> fst (snd (stopSession (stopped active_session)))
         = [Rejected ''InvalidStateError'', Rejected ''InvalidStateError'']"
    by (simp add: no_session_active_def stopped_fields stopSession_closed_form a)
  from p1 p2 p3 p4 p5 show ?thesis by blast
qed

text \<open>
  C9, amended. From every state, \<open>stopSession()\<close> returns without throwing. Afterwards
  the hook is not listening and the assistant is not active, and the connecting flag is
  what it was, so the hook is idle exactly if no start was waiting for its socket; the
  socket of the session the handle pointed to is closing or closed and the handle is
  cleared; the capture source and the capture processor are disconnected and both
  audio contexts are closed, or absent as before; the output gain node and the set of
  playing sources are what they were. If no session was active, no socket is touched:
  the call changes nothing but the assistant-active flag, the connections of the two
  capture nodes and the two contexts, which it closes. A second call right after a
  first leaves the state as it is, and on the hook as mounted the call changes
  nothing and creates no promise.
\<close>

theorem stopSession_releases_session:
  "snd (snd (stopSession st)) = None
   \<and> \<not> isListening (stopped st) \<and> \<not> isAssistantActive (stopped st)
   \<and> (idle (stopped st) \<longleftrightarrow> \<not> isConnecting st)
   \<and> liveSessionRef (stopped st) = None
   \<and> (\<forall>sid. liveSessionRef st = Some sid \<and> sid < length (sessions st)
         \<longrightarrow> transport_closed (stopped st) sid)
   \<and> node_released (inputSourceRef (stopped st)) \<and> node_released (processorRef (stopped st))
   \<and> context_released (audioContextRef (stopped st)) \<and> context_released (outputContextRef (stopped st))
   \<and> (inputSourceRef (stopped st) = None \<longleftrightarrow> inputSourceRef st = None)
   \<and> (processorRef (stopped st) = None \<longleftrightarrow> processorRef st = None)
   \<and> (audioContextRef (stopped st) = None \<longleftrightarrow> audioContextRef st = None)
   \<and> (outputContextRef (stopped st) = None \<longleftrightarrow> outputContextRef st = None)
   \<and> outputNodeRef (stopped st) = outputNodeRef st
   \<and> playingSources (stopped st) = playingSources st
   \<and> (no_session_active st \<longrightarrow>
        stopped st =
          st\<lparr>isAssistantActive := False,
             inputSourceRef := map_option (\<lambda>n. n\<lparr>is_connected := False\<rparr>) (inputSourceRef st),
             processorRef := map_option (\<lambda>n. n\<lparr>is_connected := False\<rparr>) (processorRef st),
             audioContextRef := map_option (\<lambda>c. c\<lparr>ctx_closed := True\<rparr>) (audioContextRef st),
             outputContextRef := map_option (\<lambda>c. c\<lparr>ctx_closed := True\<rparr>) (outputContextRef st)\<rparr>)
   \<and> stopped (stopped st) = stopped st
   \<and> stopSession assistant_init = (assistant_init, [], None)"
proof -
  have e: "snd (snd (stopSession st)) = None"
    by (simp add: stopSession_closed_form)
  have f: "\<not> isListening (stopped st) \<and> \<not> isAssistantActive (stopped st)
     \<and> (idle (stopped st) \<longleftrightarrow> \<not> isConnecting st) \<and> liveSessionRef (stopped st) = None"
    by (simp add: idle_def stopped_fields)
  have t: "\<forall>sid. liveSessionRef st = Some sid \<and> sid < length (sessions st)
             \<longrightarrow> transport_closed (stopped st) sid"
    using stopped_closes by blast
  have n: "node_released (inputSourceRef (stopped st)) \<and> node_released (processorRef (stopped st))
     \<and> context_released (audioContextRef (stopped st)) \<and> context_released (outputContextRef (stopped st))"
    by (simp add: stopped_fields node_released_def context_released_def split: option.splits)
  have k: "(inputSourceRef (stopped st) = None \<longleftrightarrow> inputSourceRef st = None)
     \<and> (processorRef (stopped st) = None \<longleftrightarrow> processorRef st = None)
     \<and> (audioContextRef (stopped st) = None \<longleftrightarrow> audioContextRef st = None)
     \<and> (outputContextRef (stopped st) = None \<longleftrightarrow> outputContextRef st = None)
     \<and> outputNodeRef (stopped st) = outputNodeRef st
     \<and> playingSources (stopped st) = playingSources st"
    by (simp add: stopped_fields)
  have i: "stopSession assistant_init = (assistant_init, [], None)"
    by (simp add: stopSession_closed_form close_live_session_def assistant_init_def)
  from e f t n k i stopped_no_session stopped_idempotent show ?thesis
    by blast
qed

theorem stopSession_releases_session_witness:
  "liveSessionRef active_session = Some 0 \<and> 0 < length (sessions active_session)
   \<and> transport_closed (stopped active_session) 0
   \<and> idle (stopped active_session)
   \<and> no_session_active refused_microphone
   \<and> stopped refused_microphone =
       refused_microphone\<lparr>
         audioContextRef := Some \<lparr>currentTime = 0, ctx_closed = True\<rparr>,
         outputContextRef := Some \<lparr>currentTime = 0, ctx_closed = True\<rparr>\<rparr>"
proof -
  have a: "liveSessionRef active_session = Some 0 \<and> 0 < length (sessions active_session)
     \<and> \<not> isConnecting active_session"
    by (simp add: active_session_def startSession_def start_setup_def start_opened_def
        assistant_init_def Let_def)
  have r: "refused_microphone =
     assistant_init\<lparr>messages := [ai_message ''Connection failed. Check permissions.''],
       audioContextRef := Some \<lparr>currentTime = 0, ctx_closed = False\<rparr>,
       outputContextRef := Some \<lparr>currentTime = 0, ctx_closed = False\<rparr>,
       outputNodeRef := Some \<lparr>is_connected = True\<rparr>\<rparr>"
    by (simp add: refused_microphone_def startSession_def start_setup_def start_failed_def
        addMessage_def assistant_init_def Let_def)
  have n: "no_session_active refused_microphone"
    by (simp add: r no_session_active_def assistant_init_def)
  have u: "refused_microphone\<lparr>isAssistantActive := False,
             inputSourceRef := map_option (\<lambda>n. n\<lparr>is_connected := False\<rparr>) (inputSourceRef refused_microphone),
             processorRef := map_option (\<lambda>n. n\<lparr>is_connected := False\<rparr>) (processorRef refused_microphone),
             audioContextRef := map_option (\<lambda>c. c\<lparr>ctx_closed := True\<rparr>) (audioContextRef refused_microphone),
             outputContextRef := map_option (\<lambda>c. c\<lparr>ctx_closed := True\<rparr>) (outputContextRef refused_microphone)\<rparr>
           = refused_microphone\<lparr>
               audioContextRef := Some \<lparr>currentTime = 0, ctx_closed = True\<rparr>,
               outputContextRef := Some \<lparr>currentTime = 0, ctx_closed = True\<rparr>\<rparr>"
    by (simp add: r assistant_init_def)
  show ?thesis
    using stopSession_releases_session [of active_session]
      stopSession_releases_session [of refused_microphone] a n u
    by simp
qed

end
